theory Spec2Isabelle
  imports Main
begin

section \<open>Errors\<close>

text \<open>
  Go errors are values. An error built by \<^verbatim>\<open>fmt.Errorf\<close> keeps its format string and
  its arguments; the \<^verbatim>\<open>%w\<close> verb wraps another error, which \<^verbatim>\<open>errors.Is\<close> then
  finds by unwrapping. \<^verbatim>\<open>errors.Join\<close> keeps the errors that are not nil. A panic
  of package \<^verbatim>\<open>must\<close> ends the call like an error and is a value of its own.
\<close>

datatype fmtarg = AStr string | AInt nat

datatype error =
    ErrNotExist
  | ErrIO string
  | errors_New string
  | fmt_Errorf string "fmtarg list"
  | fmt_Errorf_w string "fmtarg list" error
  | JoinErr "error list"
  | BranchNeedsRestackError string string string
  | ErrNoPrompt
  | Panic string "fmtarg list"

fun errors_Is :: "error \<Rightarrow> error \<Rightarrow> bool" where
  "errors_Is (fmt_Errorf_w f as e) t = (fmt_Errorf_w f as e = t \<or> errors_Is e t)"
| "errors_Is (JoinErr es) t = (JoinErr es = t \<or> (\<exists>e \<in> set es. errors_Is e t))"
| "errors_Is e t = (e = t)"

text \<open>
  \<^verbatim>\<open>errors.As\<close> with a target of type \<^verbatim>\<open>*spice.BranchNeedsRestackError\<close>: whether the
  chain of the error holds one. The type is declared outside the sources; its
  fields are the ones the spec names (base, expected hash, actual hash).
\<close>

fun errors_As_restack :: "error \<Rightarrow> bool" where
  "errors_As_restack (BranchNeedsRestackError b x a) = True"
| "errors_As_restack (fmt_Errorf_w f as e) = errors_As_restack e"
| "errors_As_restack (JoinErr es) = (\<exists>e \<in> set es. errors_As_restack e)"
| "errors_As_restack e = False"

definition errors_Join :: "error \<Rightarrow> error option \<Rightarrow> error" where
  "errors_Join e eo = (case eo of None \<Rightarrow> JoinErr [e] | Some e2 \<Rightarrow> JoinErr [e, e2])"

section \<open>Slash-separated paths (Go's \<^verbatim>\<open>path\<close> package)\<close>

text \<open>
  \<^verbatim>\<open>path.Clean\<close> over the components of the path: empty components and \<^verbatim>\<open>.\<close> are
  dropped, \<^verbatim>\<open>..\<close> removes the component before it (at the root it is dropped, at
  the start of a relative path it is kept), and the empty result is \<^verbatim>\<open>.\<close>.
  \<^verbatim>\<open>path.Join\<close> skips leading empty elements, joins the rest with a slash and cleans
  the result; with nothing but empty elements it returns the empty string.
\<close>

fun split_slash :: "string \<Rightarrow> string \<Rightarrow> string list" where
  "split_slash cur [] = [rev cur]"
| "split_slash cur (c # cs) =
     (if c = CHR ''/'' then rev cur # split_slash [] cs else split_slash (c # cur) cs)"

definition clean_elem :: "bool \<Rightarrow> string list \<Rightarrow> string \<Rightarrow> string list" where
  "clean_elem rooted out e =
     (if e = [] \<or> e = ''.'' then out
      else if e = ''..'' then
        (case out of
           [] \<Rightarrow> if rooted then [] else [''..'']
         | d # ds \<Rightarrow> if d = ''..'' then ''..'' # out else ds)
      else e # out)"

fun join_slash :: "string list \<Rightarrow> string" where
  "join_slash [] = []"
| "join_slash [e] = e"
| "join_slash (e # es) = e @ ''/'' @ join_slash es"

definition path_Clean :: "string \<Rightarrow> string" where
  "path_Clean p =
     (if p = [] then ''.''
      else
        let rooted = (hd p = CHR ''/'');
            out = rev (foldl (clean_elem rooted) [] (split_slash [] p))
        in if rooted then ''/'' @ join_slash out
           else if out = [] then ''.'' else join_slash out)"

fun join_buf :: "string \<Rightarrow> string list \<Rightarrow> string" where
  "join_buf buf [] = buf"
| "join_buf buf (e # es) =
     join_buf (if buf \<noteq> [] \<or> e \<noteq> []
               then (if buf \<noteq> [] then buf @ ''/'' else buf) @ e
               else buf) es"

definition path_Join :: "string list \<Rightarrow> string" where
  "path_Join elem =
     (if concat elem = [] then [] else path_Clean (join_buf [] elem))"

section \<open>The state store (\<^verbatim>\<open>internal/state/store.go\<close>)\<close>

subsection \<open>Stored values\<close>

record repoInfo =
  Trunk :: string

record branchStateBase =
  Name_bsb :: string
  Hash_bsb :: string

record branchState =
  Base_bs :: branchStateBase
  PR_bs :: int

text \<open>
  The value of a \<^verbatim>\<open>setRequest\<close> is whatever the store hands to the backend: Go's
  nil (the zero value of the field), a \<^verbatim>\<open>repoInfo\<close> or a \<^verbatim>\<open>branchState\<close>.
\<close>

datatype jsonval = JNil | JRepo repoInfo | JBranch branchState

record setRequest =
  Key :: string
  Val :: jsonval

record updateRequest =
  Sets :: "setRequest list"
  Dels :: "string list"
  Msg :: string

text \<open>The zero values Go gives to a declared variable or a made slice element.\<close>

definition zero_branchState :: branchState where
  "zero_branchState = \<lparr>Base_bs = \<lparr>Name_bsb = [], Hash_bsb = []\<rparr>, PR_bs = 0\<rparr>"

definition zero_setRequest :: setRequest where
  "zero_setRequest = \<lparr>Key = [], Val = JNil\<rparr>"

subsection \<open>The storage backend\<close>

text \<open>
  Modelled from the spec: the storage backend (\<^verbatim>\<open>storageBackend\<close>, built by
  \<^verbatim>\<open>newGitStorageBackend\<close>) is not among the sources. The spec describes a key/value
  store: \<^verbatim>\<open>get(key)\<close> returns the value or \<^verbatim>\<open>ErrNotExist\<close>, never an I/O error for
  a missing key; \<^verbatim>\<open>update({sets, deletes, message})\<close> is atomic and records the
  message of the commit; I/O errors surface unchanged. The snapshot is a map from
  keys to values, the messages are the list of commits, and two fields say where
  the environment fails with an I/O error (and with which message): reading a
  key, or committing an update. An update applies its sets in the order of the
  list, then its deletes, and takes every key as it is given, the empty one too.
\<close>

record backend =
  tree :: "string \<rightharpoonup> jsonval"
  commits :: "string list"
  get_fault :: "string \<Rightarrow> string option"
  update_fault :: "string option"

definition backend_Get :: "backend \<Rightarrow> string \<Rightarrow> error + jsonval" where
  "backend_Get bk key =
     (case get_fault bk key of
        Some io \<Rightarrow> Inl (ErrIO io)
      | None \<Rightarrow> (case tree bk key of None \<Rightarrow> Inl ErrNotExist | Some v \<Rightarrow> Inr v))"

definition apply_set :: "(string \<rightharpoonup> jsonval) \<Rightarrow> setRequest \<Rightarrow> (string \<rightharpoonup> jsonval)" where
  "apply_set t sr = t(Key sr \<mapsto> Val sr)"

definition apply_del :: "(string \<rightharpoonup> jsonval) \<Rightarrow> string \<Rightarrow> (string \<rightharpoonup> jsonval)" where
  "apply_del t key = t(key := None)"

definition backend_Update :: "backend \<Rightarrow> updateRequest \<Rightarrow> error option \<times> backend" where
  "backend_Update bk req =
     (case update_fault bk of
        Some io \<Rightarrow> (Some (ErrIO io), bk)
      | None \<Rightarrow>
          (None, bk\<lparr>tree := foldl apply_del (foldl apply_set (tree bk) (Sets req)) (Dels req),
                     commits := commits bk @ [Msg req]\<rparr>))"

text \<open>
  Reading a key into a \<^verbatim>\<open>branchState\<close> decodes the stored JSON: a stored branch
  state reads back as it was written; \<^verbatim>\<open>null\<close> and an object with none of the
  fields of a branch state leave the zero value.
\<close>

definition decode_branchState :: "jsonval \<Rightarrow> branchState" where
  "decode_branchState v = (case v of JBranch st \<Rightarrow> st | _ \<Rightarrow> zero_branchState)"

subsection \<open>Store, Lookup and Update\<close>

record Store =
  store_b :: backend
  store_trunk :: string

definition Trunk_of :: "Store \<Rightarrow> string" where
  "Trunk_of s = store_trunk s"

definition branchesDir :: string where
  "branchesDir = ''branches''"

definition repoJSON :: string where
  "repoJSON = ''repo''"

definition branchJSON :: "Store \<Rightarrow> string \<Rightarrow> string" where
  "branchJSON s name = path_Join [branchesDir, name]"

record LookupResponse =
  Name_lr :: string
  Base_lr :: string
  BaseHash_lr :: string
  PR_lr :: int

definition Lookup :: "Store \<Rightarrow> string \<Rightarrow> error + LookupResponse" where
  "Lookup s name =
     (case backend_Get (store_b s) (branchJSON s name) of
        Inl err \<Rightarrow> Inl (fmt_Errorf_w ''get branch state: %w'' [] err)
      | Inr v \<Rightarrow>
          (let state = decode_branchState v
           in Inr \<lparr>Name_lr = name,
                   Base_lr = Name_bsb (Base_bs state),
                   BaseHash_lr = Hash_bsb (Base_bs state),
                   PR_lr = PR_bs state\<rparr>))"

record UpsertRequest =
  Name :: string
  Base :: string
  BaseHash :: string
  PR :: "int option"

record UpdateRequest =
  Upserts :: "UpsertRequest list"
  Deletes :: "string list"
  Message :: string

text \<open>
  The body of the loop of \<^verbatim>\<open>Update\<close> for the upsert at index \<open>i\<close>: the checks on
  the name, the read of the previous state, the three overrides, the check on
  the base, and the entry for the backend.
\<close>

definition upsert_entry :: "Store \<Rightarrow> nat \<Rightarrow> UpsertRequest \<Rightarrow> error + setRequest" where
  "upsert_entry s i req =
     (if Name req = [] then
        Inl (fmt_Errorf ''upsert [%d]: branch name is required'' [AInt i])
      else if Name req = store_trunk s then
        Inl (fmt_Errorf ''upsert [%d]: trunk branch is not managed by gs'' [AInt i])
      else
        (case (case Lookup s (Name req) of
                 Inl err \<Rightarrow>
                   if \<not> errors_Is err ErrNotExist
                   then Inl (fmt_Errorf_w ''get branch: %w'' [] err)
                   else Inr zero_branchState
               | Inr prev \<Rightarrow>
                   Inr \<lparr>Base_bs = \<lparr>Name_bsb = Base_lr prev, Hash_bsb = BaseHash_lr prev\<rparr>,
                        PR_bs = PR_lr prev\<rparr>) of
           Inl e \<Rightarrow> Inl e
         | Inr b0 \<Rightarrow>
             (let b1 = (if Base req \<noteq> []
                        then b0\<lparr>Base_bs := (Base_bs b0)\<lparr>Name_bsb := Base req\<rparr>\<rparr> else b0);
                  b2 = (if BaseHash req \<noteq> []
                        then b1\<lparr>Base_bs := (Base_bs b1)\<lparr>Hash_bsb := BaseHash req\<rparr>\<rparr> else b1);
                  b3 = (case PR req of Some n \<Rightarrow> b2\<lparr>PR_bs := n\<rparr> | None \<Rightarrow> b2)
              in if Name_bsb (Base_bs b3) = [] then
                   Inl (fmt_Errorf ''branch %q (%d) would have no base'' [AStr (Name req), AInt i])
                 else Inr \<lparr>Key = branchJSON s (Name req), Val = JBranch b3\<rparr>)))"

text \<open>
  The loop: \<open>sets\<close> is the slice built so far, each round appends to it, and the
  first error ends the call.
\<close>

fun upsert_loop :: "Store \<Rightarrow> nat \<Rightarrow> UpsertRequest list \<Rightarrow> setRequest list \<Rightarrow> error + setRequest list" where
  "upsert_loop s i [] sets = Inr sets"
| "upsert_loop s i (req # reqs) sets =
     (case upsert_entry s i req of
        Inl e \<Rightarrow> Inl e
      | Inr sr \<Rightarrow> upsert_loop s (Suc i) reqs (sets @ [sr]))"

text \<open>
  What \<^verbatim>\<open>Update\<close> forwards to the backend. The slice \<open>sets\<close> is made with
  \<^verbatim>\<open>make([]setRequest, len(req.Upserts))\<close>, so it starts with that many zero values.
  \<open>now\<close> is the time of the call in RFC 3339, used when the message is empty.
\<close>

definition Update_request :: "Store \<Rightarrow> string \<Rightarrow> UpdateRequest \<Rightarrow> error + updateRequest" where
  "Update_request s now req =
     (let msg = (if Message req = [] then ''update at '' @ now else Message req)
      in case upsert_loop s 0 (Upserts req)
                (replicate (length (Upserts req)) zero_setRequest) of
           Inl e \<Rightarrow> Inl e
         | Inr sets \<Rightarrow> Inr \<lparr>Sets = sets, Dels = Deletes req, Msg = msg\<rparr>)"

definition Update :: "Store \<Rightarrow> string \<Rightarrow> UpdateRequest \<Rightarrow> error option \<times> Store" where
  "Update s now req =
     (case Update_request s now req of
        Inl e \<Rightarrow> (Some e, s)
      | Inr ureq \<Rightarrow>
          (case backend_Update (store_b s) ureq of
             (Some err, bk) \<Rightarrow> (Some (fmt_Errorf_w ''update: %w'' [] err), s\<lparr>store_b := bk\<rparr>)
           | (None, bk) \<Rightarrow> (None, s\<lparr>store_b := bk\<rparr>)))"

text \<open>
  \<^verbatim>\<open>InitStore\<close> on a repository whose backend holds \<open>bk\<close>: the trunk name is
  required, an initialized store is cleared only with \<open>force\<close>, and the trunk is
  written under the key \<^verbatim>\<open>repo\<close>.
\<close>

definition backend_Clear :: "backend \<Rightarrow> string \<Rightarrow> error option \<times> backend" where
  "backend_Clear bk msg =
     (case update_fault bk of
        Some io \<Rightarrow> (Some (ErrIO io), bk)
      | None \<Rightarrow> (None, bk\<lparr>tree := Map.empty, commits := commits bk @ [msg]\<rparr>))"

definition ErrAlreadyInitialized :: error where
  "ErrAlreadyInitialized = errors_New ''store already initialized''"

definition InitStore :: "backend \<Rightarrow> string \<Rightarrow> bool \<Rightarrow> error + Store" where
  "InitStore bk trunk force =
     (if trunk = [] then Inl (errors_New ''trunk branch name is required'')
      else
        (case (case backend_Get bk repoJSON of
                 Inr v \<Rightarrow>
                   if \<not> force then Inl ErrAlreadyInitialized
                   else (case backend_Clear bk ''re-initializing store'' of
                           (Some err, bk') \<Rightarrow> Inl (fmt_Errorf_w ''clear store: %w'' [] err)
                         | (None, bk') \<Rightarrow> Inr bk')
               | Inl err \<Rightarrow> Inr bk) of
           Inl e \<Rightarrow> Inl e
         | Inr bk1 \<Rightarrow>
             (case backend_Update bk1
                     \<lparr>Sets = [\<lparr>Key = repoJSON, Val = JRepo \<lparr>Trunk = trunk\<rparr>\<rparr>],
                      Dels = [], Msg = ''initialize store''\<rparr> of
                (Some err, bk2) \<Rightarrow> Inl (fmt_Errorf_w ''put repo state: %w'' [] err)
              | (None, bk2) \<Rightarrow> Inr \<lparr>store_b = bk2, store_trunk = trunk\<rparr>)))"

subsection \<open>Scenario: a store initialized with trunk \<^verbatim>\<open>main\<close>\<close>

definition bk_empty :: backend where
  "bk_empty = \<lparr>tree = Map.empty, commits = [], get_fault = (\<lambda>_. None), update_fault = None\<rparr>"

definition store_main :: Store where
  "store_main = \<lparr>store_b = bk_empty\<lparr>tree := [repoJSON \<mapsto> JRepo \<lparr>Trunk = ''main''\<rparr>],
                                      commits := [''initialize store'']\<rparr>,
                 store_trunk = ''main''\<rparr>"

definition req_feat_a :: UpdateRequest where
  "req_feat_a = \<lparr>Upserts = [\<lparr>Name = ''feat-a'', Base = ''main'', BaseHash = ''c0'', PR = None\<rparr>],
                 Deletes = [], Message = ''create branch feat-a''\<rparr>"

definition ureq_feat_a :: updateRequest where
  "ureq_feat_a =
     \<lparr>Sets = [zero_setRequest,
              \<lparr>Key = ''branches/feat-a'',
               Val = JBranch \<lparr>Base_bs = \<lparr>Name_bsb = ''main'', Hash_bsb = ''c0''\<rparr>, PR_bs = 0\<rparr>\<rparr>],
      Dels = [], Msg = ''create branch feat-a''\<rparr>"

lemma InitStore_main: "InitStore bk_empty ''main'' False = Inr store_main"
  by (simp add: InitStore_def bk_empty_def store_main_def backend_Get_def backend_Update_def
      apply_set_def repoJSON_def)

lemma branchJSON_feat_a: "branchJSON s ''feat-a'' = ''branches/feat-a''"
  by (simp add: branchJSON_def branchesDir_def path_Join_def path_Clean_def clean_elem_def)

lemma Update_request_feat_a:
  "Update_request store_main ''t'' req_feat_a = Inr ureq_feat_a"
  by (simp add: Update_request_def req_feat_a_def upsert_entry_def Lookup_def backend_Get_def
      store_main_def bk_empty_def branchJSON_feat_a repoJSON_def zero_branchState_def
      ureq_feat_a_def)

subsection \<open>The list of sets that Update forwards\<close>

lemma upsert_loop_Inr:
  "upsert_loop s i reqs sets = Inr out \<Longrightarrow>
   \<exists>es. out = sets @ es \<and> length es = length reqs \<and>
        map (\<lambda>(k, r). upsert_entry s k r) (enumerate i reqs) = map Inr es"
proof (induction reqs arbitrary: i sets)
  case Nil
  then show ?case by simp
next
  case (Cons r reqs)
  from Cons.prems obtain sr where sr: "upsert_entry s i r = Inr sr"
    and rest: "upsert_loop s (Suc i) reqs (sets @ [sr]) = Inr out"
    by (auto split: sum.splits)
  from Cons.IH [OF rest] obtain es where es: "out = (sets @ [sr]) @ es"
    "length es = length reqs"
    "map (\<lambda>(k, r). upsert_entry s k r) (enumerate (Suc i) reqs) = map Inr es"
    by blast
  show ?case
  proof (intro exI conjI)
    show "out = sets @ (sr # es)" using es(1) by simp
    show "length (sr # es) = length (r # reqs)" using es(2) by simp
    show "map (\<lambda>(k, r). upsert_entry s k r) (enumerate i (r # reqs)) = map Inr (sr # es)"
      using sr es(3) by simp
  qed
qed

text \<open>
  C3. When a request with \<open>n \<ge> 1\<close> upserts passes the checks of \<^verbatim>\<open>Update\<close>, the list of
  sets forwarded to the backend has length \<open>2 * n\<close> and not \<open>n\<close>: its first \<open>n\<close>
  entries are zero values (empty key, nil value), left by \<^verbatim>\<open>make\<close>, and the \<open>n\<close>
  entries computed for the upserts follow them; this list is what the backend's
  update receives.
\<close>

theorem Update_sets_doubled:
  assumes "Update_request s now req = Inr ureq"
    and "length (Upserts req) = n" and "1 \<le> n"
  shows "length (Sets ureq) = 2 * n \<and> length (Sets ureq) \<noteq> n
       \<and> take n (Sets ureq) = replicate n zero_setRequest
       \<and> map Inr (drop n (Sets ureq)) =
           map (\<lambda>(i, r). upsert_entry s i r) (enumerate 0 (Upserts req))
       \<and> Update s now req =
           (case backend_Update (store_b s) ureq of
              (Some err, bk) \<Rightarrow> (Some (fmt_Errorf_w ''update: %w'' [] err), s\<lparr>store_b := bk\<rparr>)
            | (None, bk) \<Rightarrow> (None, s\<lparr>store_b := bk\<rparr>))"
proof -
  from assms(1) obtain sets where
    loop: "upsert_loop s 0 (Upserts req) (replicate (length (Upserts req)) zero_setRequest) = Inr sets"
    and sets: "Sets ureq = sets"
    by (auto simp: Update_request_def Let_def split: sum.splits)
  from upsert_loop_Inr [OF loop] obtain es where
    es: "sets = replicate (length (Upserts req)) zero_setRequest @ es"
      "length es = length (Upserts req)"
      "map (\<lambda>(k, r). upsert_entry s k r) (enumerate 0 (Upserts req)) = map Inr es"
    by blast
  have "length (Sets ureq) = 2 * n" using sets es(1,2) assms(2) by simp
  moreover have "length (Sets ureq) \<noteq> n" using calculation assms(3) by simp
  moreover have "take n (Sets ureq) = replicate n zero_setRequest"
    using sets es(1) assms(2) by simp
  moreover have "map Inr (drop n (Sets ureq)) =
      map (\<lambda>(i, r). upsert_entry s i r) (enumerate 0 (Upserts req))"
    using sets es(1,3) assms(2) by simp
  moreover have "Update s now req =
           (case backend_Update (store_b s) ureq of
              (Some err, bk) \<Rightarrow> (Some (fmt_Errorf_w ''update: %w'' [] err), s\<lparr>store_b := bk\<rparr>)
            | (None, bk) \<Rightarrow> (None, s\<lparr>store_b := bk\<rparr>))"
    using assms(1) by (simp add: Update_def)
  ultimately show ?thesis by blast
qed

theorem Update_sets_doubled_witness:
  "Update_request store_main ''t'' req_feat_a = Inr ureq_feat_a \<and>
   length (Upserts req_feat_a) = 1 \<and>
   length (Sets ureq_feat_a) = 2 \<and>
   take 1 (Sets ureq_feat_a) = [zero_setRequest]"
proof -
  have n: "length (Upserts req_feat_a) = 1" by (simp add: req_feat_a_def)
  from Update_sets_doubled [OF Update_request_feat_a n]
  have "length (Sets ureq_feat_a) = 2 \<and> take 1 (Sets ureq_feat_a) = [zero_setRequest]"
    by simp
  with n Update_request_feat_a show ?thesis by simp
qed

subsection \<open>What a lookup returns after an upsert\<close>

text \<open>
  \<open>stored_before\<close> is the record a lookup returned before the update, with zero values
  when there was none; \<open>upsert_result\<close> is the record the spec asks for after an upsert:
  the fields the upsert gives, and the stored ones for those it omits.
\<close>

definition stored_before :: "Store \<Rightarrow> string \<Rightarrow> LookupResponse" where
  "stored_before s name =
     (case Lookup s name of
        Inr p \<Rightarrow> p
      | Inl e \<Rightarrow> \<lparr>Name_lr = name, Base_lr = [], BaseHash_lr = [], PR_lr = 0\<rparr>)"

definition upsert_result :: "Store \<Rightarrow> UpsertRequest \<Rightarrow> LookupResponse" where
  "upsert_result s r =
     \<lparr>Name_lr = Name r,
      Base_lr = (if Base r \<noteq> [] then Base r else Base_lr (stored_before s (Name r))),
      BaseHash_lr = (if BaseHash r \<noteq> [] then BaseHash r
                     else BaseHash_lr (stored_before s (Name r))),
      PR_lr = (case PR r of Some n \<Rightarrow> n | None \<Rightarrow> PR_lr (stored_before s (Name r)))\<rparr>"

subsection \<open>More scenarios\<close>

definition store_a :: Store where
  "store_a =
     \<lparr>store_b = bk_empty\<lparr>tree := [repoJSON \<mapsto> JRepo \<lparr>Trunk = ''main''\<rparr>,
                                    [] \<mapsto> JNil,
                                    ''branches/feat-a'' \<mapsto>
                                      JBranch \<lparr>Base_bs = \<lparr>Name_bsb = ''main'', Hash_bsb = ''c0''\<rparr>,
                                               PR_bs = 0\<rparr>],
                          commits := [''initialize store'', ''create branch feat-a'']\<rparr>,
      store_trunk = ''main''\<rparr>"

definition req_pr :: UpdateRequest where
  "req_pr = \<lparr>Upserts = [\<lparr>Name = ''feat-a'', Base = [], BaseHash = [], PR = Some 7\<rparr>],
             Deletes = [], Message = []\<rparr>"

definition req_nobase :: UpdateRequest where
  "req_nobase = \<lparr>Upserts = [\<lparr>Name = ''feat-b'', Base = [], BaseHash = ''c0'', PR = None\<rparr>],
                 Deletes = [], Message = ''track feat-b''\<rparr>"

definition req_self :: UpdateRequest where
  "req_self = \<lparr>Upserts = [\<lparr>Name = ''feat-a'', Base = ''feat-a'', BaseHash = ''c0'', PR = None\<rparr>],
               Deletes = [], Message = ''track feat-a''\<rparr>"

definition req_trunk :: UpdateRequest where
  "req_trunk = \<lparr>Upserts = [\<lparr>Name = ''feat-a'', Base = ''main'', BaseHash = ''c0'', PR = None\<rparr>,
                           \<lparr>Name = ''main'', Base = ''feat-a'', BaseHash = ''c1'', PR = None\<rparr>],
                Deletes = [], Message = ''track main''\<rparr>"

text \<open>An upsert whose name is another spelling of the path of \<^verbatim>\<open>main\<close>.\<close>

definition req_dot_main :: UpdateRequest where
  "req_dot_main =
     \<lparr>Upserts = [\<lparr>Name = ''./main'', Base = ''feat-a'', BaseHash = ''c0'', PR = None\<rparr>],
      Deletes = [], Message = ''track ./main''\<rparr>"

subsection \<open>Facts about the scenarios\<close>

lemma branchJSON_feat_b: "branchJSON s ''feat-b'' = ''branches/feat-b''"
  by (simp add: branchJSON_def branchesDir_def path_Join_def path_Clean_def clean_elem_def)

lemma Update_feat_a: "Update store_main ''t'' req_feat_a = (None, store_a)"
  by (simp add: Update_def Update_request_feat_a)
     (simp add: store_a_def backend_Update_def store_main_def bk_empty_def ureq_feat_a_def
       apply_set_def zero_setRequest_def)

lemma Lookup_a_feat_a:
  "Lookup store_a ''feat-a'' =
     Inr \<lparr>Name_lr = ''feat-a'', Base_lr = ''main'', BaseHash_lr = ''c0'', PR_lr = 0\<rparr>"
  by (simp add: Lookup_def backend_Get_def store_a_def bk_empty_def branchJSON_feat_a
      repoJSON_def decode_branchState_def)

lemma Update_a_pr: "fst (Update store_a ''t'' req_pr) = None"
  by (simp add: Update_def Update_request_def req_pr_def upsert_entry_def Lookup_a_feat_a
      backend_Update_def)
     (simp add: store_a_def bk_empty_def)

lemma Lookup_main_feat_a:
  "Lookup store_main ''feat-a'' = Inl (fmt_Errorf_w ''get branch state: %w'' [] ErrNotExist)"
  by (simp add: Lookup_def backend_Get_def store_main_def bk_empty_def branchJSON_feat_a
      repoJSON_def)

lemma Lookup_main_feat_b:
  "Lookup store_main ''feat-b'' = Inl (fmt_Errorf_w ''get branch state: %w'' [] ErrNotExist)"
  by (simp add: Lookup_def backend_Get_def store_main_def bk_empty_def branchJSON_feat_b
      repoJSON_def)

subsection \<open>Properties of Update and Lookup\<close>

lemma upsert_loop_fails:
  "r \<in> set reqs \<Longrightarrow> (\<And>i. \<exists>e. upsert_entry s i r = Inl e) \<Longrightarrow>
   \<exists>e. upsert_loop s i reqs sets = Inl e"
proof (induction reqs arbitrary: i sets)
  case Nil
  then show ?case by simp
next
  case (Cons q reqs)
  show ?case
  proof (cases "upsert_entry s i q")
    case (Inl e)
    then show ?thesis by simp
  next
    case (Inr sr)
    with Cons.prems(2) [of i] have "r \<noteq> q" by auto
    with Cons.prems(1) have "r \<in> set reqs" by simp
    from Cons.IH [OF this Cons.prems(2)] Inr show ?thesis by simp
  qed
qed

lemma Update_fails_unchanged:
  "r \<in> set (Upserts req) \<Longrightarrow> (\<And>i. \<exists>e. upsert_entry s i r = Inl e) \<Longrightarrow>
   \<exists>e. Update_request s now req = Inl e \<and> Update s now req = (Some e, s)"
proof -
  assume a: "r \<in> set (Upserts req)" "\<And>i. \<exists>e. upsert_entry s i r = Inl e"
  from upsert_loop_fails [OF a(1) a(2)] obtain e where
    "upsert_loop s 0 (Upserts req) (replicate (length (Upserts req)) zero_setRequest) = Inl e"
    by blast
  then show ?thesis by (simp add: Update_request_def Update_def Let_def)
qed

lemma upsert_entry_trunk:
  "Name r = store_trunk s \<Longrightarrow> \<exists>e. upsert_entry s i r = Inl e"
  by (simp add: upsert_entry_def)

lemma upsert_entry_Inr:
  assumes "upsert_entry s k r = Inr sr"
  shows "Key sr = branchJSON s (Name r)"
    and "get_fault (store_b s) (branchJSON s (Name r)) = None"
    and "\<exists>st. Val sr = JBranch st \<and>
           upsert_result s r =
             \<lparr>Name_lr = Name r, Base_lr = Name_bsb (Base_bs st),
              BaseHash_lr = Hash_bsb (Base_bs st), PR_lr = PR_bs st\<rparr>"
    and "Name r \<noteq> []" and "Name r \<noteq> store_trunk s"
    and "Base_lr (upsert_result s r) \<noteq> []"
  using assms
  by (auto simp: upsert_entry_def Let_def Lookup_def backend_Get_def stored_before_def
      upsert_result_def zero_branchState_def
      split: if_splits sum.splits option.splits)

lemma upsert_loop_all2:
  "upsert_loop s i reqs sets = Inr out \<Longrightarrow>
   \<exists>es. out = sets @ es \<and> list_all2 (\<lambda>r sr. \<exists>k. upsert_entry s k r = Inr sr) reqs es"
proof (induction reqs arbitrary: i sets)
  case Nil
  then show ?case by simp
next
  case (Cons r reqs)
  from Cons.prems obtain sr where sr: "upsert_entry s i r = Inr sr"
    and rest: "upsert_loop s (Suc i) reqs (sets @ [sr]) = Inr out"
    by (auto split: sum.splits)
  from Cons.IH [OF rest] obtain es where es: "out = (sets @ [sr]) @ es"
    "list_all2 (\<lambda>r sr. \<exists>k. upsert_entry s k r = Inr sr) reqs es"
    by blast
  have "out = sets @ (sr # es)" using es(1) by simp
  moreover have "list_all2 (\<lambda>r sr. \<exists>k. upsert_entry s k r = Inr sr) (r # reqs) (sr # es)"
    using sr es(2) by auto
  ultimately show ?case by blast
qed

lemma foldl_apply_set_other:
  "\<forall>y \<in> set ys. Key y \<noteq> k \<Longrightarrow> foldl apply_set t ys k = t k"
  by (induction ys arbitrary: t) (auto simp: apply_set_def)

lemma foldl_apply_set_last:
  "\<forall>y \<in> set ys. Key y \<noteq> Key e \<Longrightarrow> foldl apply_set t (xs @ e # ys) (Key e) = Some (Val e)"
  by (simp add: foldl_apply_set_other) (simp add: apply_set_def)

lemma foldl_apply_del_other:
  "k \<notin> set ds \<Longrightarrow> foldl apply_del t ds k = t k"
  by (induction ds arbitrary: t) (simp_all add: apply_del_def)

lemma Update_stores_upsert:
  assumes upd: "Update s now req = (None, s')"
    and split: "Upserts req = before @ r # after"
    and last: "\<forall>u \<in> set after. branchJSON s (Name u) \<noteq> branchJSON s (Name r)"
    and nodel: "branchJSON s (Name r) \<notin> set (Deletes req)"
  shows "Lookup s' (Name r) = Inr (upsert_result s r)"
    and "Name r \<noteq> []" and "Name r \<noteq> store_trunk s"
    and "Base_lr (upsert_result s r) \<noteq> []"
proof -
  from upd obtain sets where
    loop: "upsert_loop s 0 (Upserts req) (replicate (length (Upserts req)) zero_setRequest) = Inr sets"
    and nofault: "update_fault (store_b s) = None"
    and s': "s' = s\<lparr>store_b := (store_b s)\<lparr>tree := foldl apply_del (foldl apply_set (tree (store_b s)) sets) (Deletes req),
                     commits := commits (store_b s) @ [if Message req = [] then ''update at '' @ now else Message req]\<rparr>\<rparr>"
    by (auto simp: Update_def Update_request_def backend_Update_def Let_def
        split: sum.splits option.splits)
  from upsert_loop_all2 [OF loop] obtain es where
    es: "sets = replicate (length (Upserts req)) zero_setRequest @ es"
      "list_all2 (\<lambda>r sr. \<exists>k. upsert_entry s k r = Inr sr) (Upserts req) es"
    by blast
  from es(2) split obtain eb er ea where
    parts: "es = eb @ er # ea"
      "\<exists>k. upsert_entry s k r = Inr er"
      "list_all2 (\<lambda>r sr. \<exists>k. upsert_entry s k r = Inr sr) after ea"
    by (auto simp: list_all2_append1 list_all2_Cons1)
  from parts(2) obtain k where er: "upsert_entry s k r = Inr er" by blast
  note E = upsert_entry_Inr [OF er]
  have ea: "\<forall>y \<in> set ea. Key y \<noteq> Key er"
  proof
    fix y assume "y \<in> set ea"
    then obtain j where j: "j < length ea" "y = ea ! j" by (auto simp: in_set_conv_nth)
    from parts(3) j have len: "j < length after" by (simp add: list_all2_lengthD)
    from parts(3) j obtain k' where "upsert_entry s k' (after ! j) = Inr y"
      by (auto simp: list_all2_conv_all_nth)
    then have "Key y = branchJSON s (Name (after ! j))" by (rule upsert_entry_Inr(1))
    with last len E(1) show "Key y \<noteq> Key er" by simp
  qed
  have "sets = (replicate (length (Upserts req)) zero_setRequest @ eb) @ er # ea"
    using es(1) parts(1) by simp
  then have "foldl apply_set (tree (store_b s)) sets (Key er) = Some (Val er)"
    using foldl_apply_set_last [OF ea] by simp
  then have "tree (store_b s') (branchJSON s (Name r)) = Some (Val er)"
    using s' nodel E(1) by (simp add: foldl_apply_del_other)
  moreover have "get_fault (store_b s') (branchJSON s (Name r)) = None"
    using s' E(2) by simp
  moreover have "branchJSON s' (Name r) = branchJSON s (Name r)"
    by (simp add: branchJSON_def)
  ultimately show "Lookup s' (Name r) = Inr (upsert_result s r)" using E(3)
    by (auto simp: Lookup_def backend_Get_def decode_branchState_def)
  show "Name r \<noteq> []" by (rule E(4))
  show "Name r \<noteq> store_trunk s" by (rule E(5))
  show "Base_lr (upsert_result s r) \<noteq> []" by (rule E(6))
qed

lemma upsert_entry_first_empty_base:
  assumes "Lookup s (Name r) = Inl e" and "errors_Is e ErrNotExist" and "Base r = []"
  shows "\<exists>e'. upsert_entry s i r = Inl e'"
  using assms by (auto simp: upsert_entry_def zero_branchState_def Let_def split: option.splits)

text \<open>
  C6. After a successful \<^verbatim>\<open>Update\<close> with an upsert \<open>r\<close> (the last one of the request
  for its key, the key not among the deletes), \<^verbatim>\<open>Lookup\<close> of \<open>r\<close>'s name returns
  \<open>upsert_result s r\<close>: the name, and for base, base hash and PR the value of \<open>r\<close>
  when it gives one and the value stored before the call when it omits it; the
  name of \<open>r\<close> is then not empty and not the trunk, and the resulting base is not
  empty. An upsert with an empty base for a branch that has no record makes the
  update fail and leaves the store as it was.
\<close>

theorem upsert_lookup_roundtrip:
  "(Update s now req = (None, s') \<and> Upserts req = before @ r # after
      \<and> (\<forall>u \<in> set after. branchJSON s (Name u) \<noteq> branchJSON s (Name r))
      \<and> branchJSON s (Name r) \<notin> set (Deletes req)
     \<longrightarrow> Lookup s' (Name r) = Inr (upsert_result s r)
         \<and> Name r \<noteq> [] \<and> Name r \<noteq> store_trunk s \<and> Base_lr (upsert_result s r) \<noteq> [])
   \<and> (r \<in> set (Upserts req) \<and> Lookup s (Name r) = Inl e \<and> errors_Is e ErrNotExist \<and> Base r = []
     \<longrightarrow> (\<exists>e'. Update s now req = (Some e', s)))"
proof (intro conjI impI)
  assume a: "Update s now req = (None, s') \<and> Upserts req = before @ r # after
      \<and> (\<forall>u \<in> set after. branchJSON s (Name u) \<noteq> branchJSON s (Name r))
      \<and> branchJSON s (Name r) \<notin> set (Deletes req)"
  then show "Lookup s' (Name r) = Inr (upsert_result s r)"
    using Update_stores_upsert(1) by blast
  from a show "Name r \<noteq> []" using Update_stores_upsert(2) by blast
  from a show "Name r \<noteq> store_trunk s" using Update_stores_upsert(3) by blast
  from a show "Base_lr (upsert_result s r) \<noteq> []" using Update_stores_upsert(4) by blast
next
  assume b: "r \<in> set (Upserts req) \<and> Lookup s (Name r) = Inl e \<and> errors_Is e ErrNotExist \<and> Base r = []"
  then have "\<And>i. \<exists>e'. upsert_entry s i r = Inl e'"
    using upsert_entry_first_empty_base by blast
  with b Update_fails_unchanged [of r req s now] show "\<exists>e'. Update s now req = (Some e', s)"
    by blast
qed

theorem upsert_lookup_roundtrip_witness:
  "Update store_main ''t'' req_feat_a = (None, store_a)
   \<and> Lookup store_a ''feat-a'' =
       Inr \<lparr>Name_lr = ''feat-a'', Base_lr = ''main'', BaseHash_lr = ''c0'', PR_lr = 0\<rparr>
   \<and> fst (Update store_a ''t'' req_pr) = None
   \<and> Lookup (snd (Update store_a ''t'' req_pr)) ''feat-a'' =
       Inr \<lparr>Name_lr = ''feat-a'', Base_lr = ''main'', BaseHash_lr = ''c0'', PR_lr = 7\<rparr>
   \<and> (\<exists>e'. Update store_main ''t'' req_nobase = (Some e', store_main))"
proof -
  let ?r = "\<lparr>Name = ''feat-a'', Base = ''main'', BaseHash = ''c0'', PR = None\<rparr>"
  have 1: "Lookup store_a ''feat-a'' =
       Inr \<lparr>Name_lr = ''feat-a'', Base_lr = ''main'', BaseHash_lr = ''c0'', PR_lr = 0\<rparr>"
    using upsert_lookup_roundtrip [where s = store_main and now = "''t''" and req = req_feat_a
          and s' = store_a and before = "[]" and r = ?r and after = "[]"]
      Update_feat_a
    by (simp add: req_feat_a_def upsert_result_def stored_before_def Lookup_main_feat_a)
  let ?p = "\<lparr>Name = ''feat-a'', Base = [], BaseHash = [], PR = Some 7\<rparr>"
  note ok = Update_a_pr
  have 2: "Lookup (snd (Update store_a ''t'' req_pr)) ''feat-a'' =
       Inr \<lparr>Name_lr = ''feat-a'', Base_lr = ''main'', BaseHash_lr = ''c0'', PR_lr = 7\<rparr>"
    using upsert_lookup_roundtrip [where s = store_a and now = "''t''" and req = req_pr
          and s' = "snd (Update store_a ''t'' req_pr)" and before = "[]" and r = ?p
          and after = "[]"] ok
    by (simp add: req_pr_def upsert_result_def stored_before_def Lookup_a_feat_a prod_eq_iff)
  let ?q = "\<lparr>Name = ''feat-b'', Base = [], BaseHash = ''c0'', PR = None\<rparr>"
  have 3: "\<exists>e'. Update store_main ''t'' req_nobase = (Some e', store_main)"
    using upsert_lookup_roundtrip [where s = store_main and now = "''t''" and req = req_nobase
          and r = ?q and e = "fmt_Errorf_w ''get branch state: %w'' [] ErrNotExist"]
    by (simp add: req_nobase_def Lookup_main_feat_b)
  from Update_feat_a 1 ok 2 3 show ?thesis by blast
qed

lemma upsert_loop_succeeds:
  "(\<And>r i. r \<in> set reqs \<Longrightarrow> \<exists>sr. upsert_entry s i r = Inr sr) \<Longrightarrow>
   \<exists>out. upsert_loop s i reqs sets = Inr out"
proof (induction reqs arbitrary: i sets)
  case Nil
  then show ?case by simp
next
  case (Cons q reqs)
  from Cons.prems [of q i] obtain sr where sr: "upsert_entry s i q = Inr sr" by auto
  have "\<exists>out. upsert_loop s (Suc i) reqs (sets @ [sr]) = Inr out"
    by (rule Cons.IH) (simp add: Cons.prems)
  with sr show ?case by simp
qed

lemma upsert_entry_succeeds:
  assumes "get_fault (store_b s) = (\<lambda>_. None)"
    and "Name r \<noteq> []" and "Name r \<noteq> store_trunk s" and "Base r \<noteq> []"
  shows "\<exists>sr. upsert_entry s i r = Inr sr"
  using assms
  by (auto simp: upsert_entry_def Lookup_def backend_Get_def Let_def
      split: option.splits sum.splits)

lemma Update_succeeds:
  assumes "get_fault (store_b s) = (\<lambda>_. None)" and "update_fault (store_b s) = None"
    and "\<forall>u \<in> set (Upserts req). Name u \<noteq> [] \<and> Name u \<noteq> store_trunk s \<and> Base u \<noteq> []"
  shows "fst (Update s now req) = None"
proof -
  have "\<exists>out. upsert_loop s 0 (Upserts req)
          (replicate (length (Upserts req)) zero_setRequest) = Inr out"
    by (rule upsert_loop_succeeds) (simp add: assms(1,3) upsert_entry_succeeds)
  then show ?thesis
    using assms(2) by (auto simp: Update_def Update_request_def backend_Update_def Let_def)
qed

lemma Update_failure_unchanged:
  "fst (Update s now req) \<noteq> None \<Longrightarrow> snd (Update s now req) = s"
  by (auto simp: Update_def backend_Update_def split: sum.splits option.splits)

text \<open>
  C4, as stated, fails: on the store that \<^verbatim>\<open>InitStore\<close> returns for the trunk
  \<^verbatim>\<open>main\<close>, the update that upserts \<^verbatim>\<open>feat-a\<close> with base \<^verbatim>\<open>feat-a\<close> succeeds, and the
  stored record of \<^verbatim>\<open>feat-a\<close> has itself as its base.
\<close>

theorem Update_accepts_self_base:
  "InitStore bk_empty ''main'' False = Inr store_main \<and>
   fst (Update store_main ''t'' req_self) = None \<and>
   Lookup (snd (Update store_main ''t'' req_self)) ''feat-a'' =
     Inr \<lparr>Name_lr = ''feat-a'', Base_lr = ''feat-a'', BaseHash_lr = ''c0'', PR_lr = 0\<rparr>"
proof -
  have ok: "fst (Update store_main ''t'' req_self) = None"
    by (rule Update_succeeds) (simp_all add: store_main_def bk_empty_def req_self_def)
  then have "Update store_main ''t'' req_self = (None, snd (Update store_main ''t'' req_self))"
    by (simp add: prod_eq_iff)
  from Update_stores_upsert(1) [OF this, of "[]"
      "\<lparr>Name = ''feat-a'', Base = ''feat-a'', BaseHash = ''c0'', PR = None\<rparr>" "[]"]
  have "Lookup (snd (Update store_main ''t'' req_self)) ''feat-a'' =
     Inr \<lparr>Name_lr = ''feat-a'', Base_lr = ''feat-a'', BaseHash_lr = ''c0'', PR_lr = 0\<rparr>"
    by (simp add: req_self_def upsert_result_def stored_before_def Lookup_main_feat_a)
  with ok InitStore_main show ?thesis by simp
qed

text \<open>
  C4, amended. \<^verbatim>\<open>Update\<close> does not look at the base-name edges. On a backend that
  does not fail, an update whose upserts all have a name that is neither empty nor
  the trunk and a base that is not empty succeeds whatever the bases are. After
  it, for an upsert that is the last one of the request for its storage key, with
  that key not among the deletes of the request, a lookup of the upsert's name
  returns a record whose base is the base the upsert gave, also when that base is
  its own name. An update that fails leaves the store unchanged.
\<close>

theorem Update_checks_no_cycle:
  "(get_fault (store_b s) = (\<lambda>_. None) \<and> update_fault (store_b s) = None
      \<and> (\<forall>u \<in> set (Upserts req). Name u \<noteq> [] \<and> Name u \<noteq> store_trunk s \<and> Base u \<noteq> [])
     \<longrightarrow> fst (Update s now req) = None
         \<and> (Upserts req = before @ r # after
              \<and> (\<forall>u \<in> set after. branchJSON s (Name u) \<noteq> branchJSON s (Name r))
              \<and> branchJSON s (Name r) \<notin> set (Deletes req)
            \<longrightarrow> (\<exists>p. Lookup (snd (Update s now req)) (Name r) = Inr p \<and> Base_lr p = Base r)))
   \<and> (fst (Update s now req) \<noteq> None \<longrightarrow> snd (Update s now req) = s)"
proof (intro conjI impI)
  assume a: "get_fault (store_b s) = (\<lambda>_. None) \<and> update_fault (store_b s) = None
      \<and> (\<forall>u \<in> set (Upserts req). Name u \<noteq> [] \<and> Name u \<noteq> store_trunk s \<and> Base u \<noteq> [])"
  then show ok: "fst (Update s now req) = None" by (simp add: Update_succeeds)
  assume b: "Upserts req = before @ r # after
              \<and> (\<forall>u \<in> set after. branchJSON s (Name u) \<noteq> branchJSON s (Name r))
              \<and> branchJSON s (Name r) \<notin> set (Deletes req)"
  from ok have "Update s now req = (None, snd (Update s now req))" by (simp add: prod_eq_iff)
  from Update_stores_upsert(1) [OF this, of before r after] b
  have "Lookup (snd (Update s now req)) (Name r) = Inr (upsert_result s r)" by blast
  moreover have "Base r \<noteq> []" using a b by simp
  then have "Base_lr (upsert_result s r) = Base r" by (simp add: upsert_result_def)
  ultimately show "\<exists>p. Lookup (snd (Update s now req)) (Name r) = Inr p \<and> Base_lr p = Base r"
    by blast
next
  assume "fst (Update s now req) \<noteq> None"
  then show "snd (Update s now req) = s" by (rule Update_failure_unchanged)
qed

theorem Update_checks_no_cycle_witness:
  "fst (Update store_main ''t'' req_self) = None
   \<and> (\<exists>p. Lookup (snd (Update store_main ''t'' req_self)) ''feat-a'' = Inr p
          \<and> Base_lr p = ''feat-a'')
   \<and> fst (Update store_main ''t'' req_trunk) \<noteq> None
   \<and> snd (Update store_main ''t'' req_trunk) = store_main"
proof -
  let ?r = "\<lparr>Name = ''feat-a'', Base = ''feat-a'', BaseHash = ''c0'', PR = None\<rparr>"
  have 1: "fst (Update store_main ''t'' req_self) = None
     \<and> (\<exists>p. Lookup (snd (Update store_main ''t'' req_self)) ''feat-a'' = Inr p
          \<and> Base_lr p = ''feat-a'')"
    using Update_checks_no_cycle [where s = store_main and now = "''t''" and req = req_self
        and before = "[]" and r = ?r and after = "[]"]
    by (simp add: store_main_def bk_empty_def req_self_def)
  have bad: "fst (Update store_main ''t'' req_trunk) \<noteq> None"
    by (simp add: Update_def Update_request_def req_trunk_def upsert_entry_def
        Lookup_main_feat_a zero_branchState_def)
       (simp add: store_main_def)
  have 2: "snd (Update store_main ''t'' req_trunk) = store_main"
    using Update_checks_no_cycle [where s = store_main and now = "''t''" and req = req_trunk]
      bad by blast
  from 1 bad 2 show ?thesis by blast
qed

subsection \<open>The record of the trunk\<close>

text \<open>
  A key made by \<^verbatim>\<open>branchJSON\<close> is never empty, so the zero-valued entries that
  \<^verbatim>\<open>Update\<close> forwards never touch the record of a branch; and an update none of
  whose upserts has the key of \<open>name\<close> leaves a missing record of \<open>name\<close> missing.
\<close>

lemma clean_elem_nonempty:
  "\<forall>e \<in> set out. e \<noteq> [] \<Longrightarrow> \<forall>e \<in> set (clean_elem rooted out x). e \<noteq> []"
  by (auto simp: clean_elem_def split: list.splits)

lemma foldl_clean_nonempty:
  "\<forall>e \<in> set out. e \<noteq> [] \<Longrightarrow> \<forall>e \<in> set (foldl (clean_elem rooted) out xs). e \<noteq> []"
proof (induction xs arbitrary: out)
  case Nil
  then show ?case by simp
next
  case (Cons x xs)
  have "\<forall>e \<in> set (clean_elem rooted out x). e \<noteq> []"
    using Cons.prems by (rule clean_elem_nonempty)
  from Cons.IH [OF this] show ?case by simp
qed

lemma join_slash_nonempty:
  "xs \<noteq> [] \<Longrightarrow> \<forall>e \<in> set xs. e \<noteq> [] \<Longrightarrow> join_slash xs \<noteq> []"
  by (induction xs rule: join_slash.induct) auto

lemma path_Clean_nonempty: "path_Clean p \<noteq> []"
proof -
  let ?out = "rev (foldl (clean_elem False) [] (split_slash [] p))"
  have "\<forall>e \<in> set ?out. e \<noteq> []"
    using foldl_clean_nonempty [of "[]" False "split_slash [] p"] by simp
  then have "?out \<noteq> [] \<Longrightarrow> join_slash ?out \<noteq> []"
    by (rule join_slash_nonempty [rotated])
  then show ?thesis
    by (auto simp: path_Clean_def Let_def)
qed

lemma branchJSON_nonempty: "branchJSON s name \<noteq> []"
  by (simp add: branchJSON_def path_Join_def branchesDir_def path_Clean_nonempty)

lemma foldl_apply_del_None:
  "t k = None \<Longrightarrow> foldl apply_del t ds k = None"
  by (induction ds arbitrary: t) (simp_all add: apply_del_def)

lemma Lookup_not_exist_iff:
  "(\<exists>e. Lookup s name = Inl e \<and> errors_Is e ErrNotExist) \<longleftrightarrow>
   (get_fault (store_b s) (branchJSON s name) = None \<and> tree (store_b s) (branchJSON s name) = None)"
  by (auto simp: Lookup_def backend_Get_def Let_def split: option.splits)

lemma Update_keeps_key_free:
  assumes free: "\<exists>e. Lookup s name = Inl e \<and> errors_Is e ErrNotExist"
    and keys: "\<forall>u \<in> set (Upserts req). branchJSON s (Name u) \<noteq> branchJSON s name"
  shows "\<exists>e. Lookup (snd (Update s now req)) name = Inl e \<and> errors_Is e ErrNotExist"
proof (cases "fst (Update s now req)")
  case (Some err)
  then have "snd (Update s now req) = s" by (simp add: Update_failure_unchanged)
  with free show ?thesis by simp
next
  case None
  let ?K = "branchJSON s name"
  let ?s' = "snd (Update s now req)"
  from free have "get_fault (store_b s) ?K = None \<and> tree (store_b s) ?K = None"
    by (simp only: Lookup_not_exist_iff)
  then have g: "get_fault (store_b s) ?K = None" and t: "tree (store_b s) ?K = None"
    by simp_all
  from None obtain sets where
    loop: "upsert_loop s 0 (Upserts req) (replicate (length (Upserts req)) zero_setRequest) = Inr sets"
    and s': "store_b ?s' = (store_b s)\<lparr>tree := foldl apply_del (foldl apply_set (tree (store_b s)) sets) (Deletes req),
                     commits := commits (store_b s) @ [if Message req = [] then ''update at '' @ now else Message req]\<rparr>"
    by (auto simp: Update_def Update_request_def backend_Update_def Let_def
        split: sum.splits option.splits)
  from upsert_loop_all2 [OF loop] obtain es where
    es: "sets = replicate (length (Upserts req)) zero_setRequest @ es"
      "list_all2 (\<lambda>r sr. \<exists>k. upsert_entry s k r = Inr sr) (Upserts req) es"
    by blast
  have "\<forall>y \<in> set es. Key y \<noteq> ?K"
  proof
    fix y assume "y \<in> set es"
    then obtain j where j: "j < length es" "y = es ! j" by (auto simp: in_set_conv_nth)
    from es(2) j have len: "j < length (Upserts req)" by (simp add: list_all2_lengthD)
    from es(2) j obtain k' where "upsert_entry s k' (Upserts req ! j) = Inr y"
      by (auto simp: list_all2_conv_all_nth)
    then have "Key y = branchJSON s (Name (Upserts req ! j))" by (rule upsert_entry_Inr(1))
    with keys len show "Key y \<noteq> ?K" by simp
  qed
  moreover have "\<forall>y \<in> set (replicate (length (Upserts req)) zero_setRequest). Key y \<noteq> ?K"
    using branchJSON_nonempty [of s name] by (auto simp: zero_setRequest_def)
  ultimately have "\<forall>y \<in> set sets. Key y \<noteq> ?K" using es(1) by auto
  then have "foldl apply_set (tree (store_b s)) sets ?K = None"
    using t by (simp add: foldl_apply_set_other)
  then have "tree (store_b ?s') ?K = None" using s' by (simp add: foldl_apply_del_None)
  moreover have "get_fault (store_b ?s') ?K = None" using s' g by simp
  moreover have "branchJSON ?s' name = ?K" by (simp add: branchJSON_def)
  ultimately show ?thesis using Lookup_not_exist_iff [of ?s' name] by simp
qed

lemma branchJSON_main:
  "branchJSON s ''main'' = ''branches/main''"
  "branchJSON s ''./main'' = ''branches/main''"
  by (simp_all add: branchJSON_def branchesDir_def path_Join_def path_Clean_def clean_elem_def)

lemma Lookup_main_main:
  "Lookup store_main ''main'' = Inl (fmt_Errorf_w ''get branch state: %w'' [] ErrNotExist)"
  by (simp add: Lookup_def backend_Get_def store_main_def bk_empty_def branchJSON_main
      repoJSON_def)

text \<open>
  C5, as stated, fails in its last clause: on the store that \<^verbatim>\<open>InitStore\<close> returns
  for the trunk \<^verbatim>\<open>main\<close>, where a lookup of \<^verbatim>\<open>main\<close> finds nothing, the update that
  upserts the name \<^verbatim>\<open>./main\<close> succeeds (the name is not equal to the trunk), and
  \<^verbatim>\<open>path.Join\<close> stores it under the key of \<^verbatim>\<open>main\<close>: a lookup of the trunk then
  returns a branch record.
\<close>

theorem Update_tracks_trunk_key:
  "InitStore bk_empty ''main'' False = Inr store_main
   \<and> store_trunk store_main = ''main''
   \<and> Lookup store_main ''main'' = Inl (fmt_Errorf_w ''get branch state: %w'' [] ErrNotExist)
   \<and> fst (Update store_main ''t'' req_dot_main) = None
   \<and> Lookup (snd (Update store_main ''t'' req_dot_main)) ''main'' =
       Inr \<lparr>Name_lr = ''main'', Base_lr = ''feat-a'', BaseHash_lr = ''c0'', PR_lr = 0\<rparr>"
proof -
  have t: "store_trunk store_main = ''main''" by (simp add: store_main_def)
  have ok: "fst (Update store_main ''t'' req_dot_main) = None"
    by (rule Update_succeeds) (simp_all add: store_main_def bk_empty_def req_dot_main_def)
  then obtain s' where upd: "Update store_main ''t'' req_dot_main = (None, s')"
    by (cases "Update store_main ''t'' req_dot_main") simp
  let ?r = "\<lparr>Name = ''./main'', Base = ''feat-a'', BaseHash = ''c0'', PR = None\<rparr>"
  have dot: "Lookup store_main ''./main'' =
      Inl (fmt_Errorf_w ''get branch state: %w'' [] ErrNotExist)"
    by (simp add: Lookup_def backend_Get_def store_main_def bk_empty_def branchJSON_main
        repoJSON_def)
  from Update_stores_upsert(1) [OF upd, of "[]" ?r "[]"]
  have "Lookup s' ''./main'' =
      Inr \<lparr>Name_lr = ''./main'', Base_lr = ''feat-a'', BaseHash_lr = ''c0'', PR_lr = 0\<rparr>"
    by (simp add: req_dot_main_def upsert_result_def stored_before_def dot)
  then have "Lookup s' ''main'' =
      Inr \<lparr>Name_lr = ''main'', Base_lr = ''feat-a'', BaseHash_lr = ''c0'', PR_lr = 0\<rparr>"
    by (auto simp: Lookup_def branchJSON_main Let_def split: sum.splits)
  with upd ok t InitStore_main Lookup_main_main show ?thesis by simp
qed

text \<open>
  C5, amended. When some upsert of the request is named like the trunk, \<^verbatim>\<open>Update\<close>
  returns an error, forwards nothing to the backend (the request for the backend
  is never built), and returns the store it was given. A store in which the trunk
  has no record keeps it so through every update none of whose upserts has a name
  that \<^verbatim>\<open>path.Join\<close> maps to the key of the trunk; the check of the name alone does
  not give this, since it compares the names and not the keys.
\<close>

theorem Update_rejects_trunk:
  "((\<exists>u \<in> set (Upserts req). Name u = store_trunk s)
      \<longrightarrow> (\<exists>e. Update_request s now req = Inl e \<and> Update s now req = (Some e, s)))
   \<and> ((\<exists>e. Lookup s (store_trunk s) = Inl e \<and> errors_Is e ErrNotExist)
       \<and> (\<forall>u \<in> set (Upserts req). branchJSON s (Name u) \<noteq> branchJSON s (store_trunk s))
      \<longrightarrow> (\<exists>e. Lookup (snd (Update s now req)) (store_trunk s) = Inl e
               \<and> errors_Is e ErrNotExist))"
proof (intro conjI impI)
  assume "\<exists>u \<in> set (Upserts req). Name u = store_trunk s"
  then obtain u where u: "u \<in> set (Upserts req)" "Name u = store_trunk s" by blast
  have "\<And>i. \<exists>e. upsert_entry s i u = Inl e" using u(2) by (rule upsert_entry_trunk)
  from Update_fails_unchanged [OF u(1) this]
  show "\<exists>e. Update_request s now req = Inl e \<and> Update s now req = (Some e, s)" by blast
next
  assume "(\<exists>e. Lookup s (store_trunk s) = Inl e \<and> errors_Is e ErrNotExist)
       \<and> (\<forall>u \<in> set (Upserts req). branchJSON s (Name u) \<noteq> branchJSON s (store_trunk s))"
  then show "\<exists>e. Lookup (snd (Update s now req)) (store_trunk s) = Inl e
               \<and> errors_Is e ErrNotExist"
    using Update_keeps_key_free by blast
qed

theorem Update_rejects_trunk_witness:
  "(\<exists>u \<in> set (Upserts req_trunk). Name u = store_trunk store_main)
   \<and> (\<exists>e. Update store_main ''t'' req_trunk = (Some e, store_main))
   \<and> Lookup store_main ''main'' = Inl (fmt_Errorf_w ''get branch state: %w'' [] ErrNotExist)
   \<and> branchJSON store_main ''feat-a'' \<noteq> branchJSON store_main ''main''
   \<and> Update store_main ''t'' req_feat_a = (None, store_a)
   \<and> (\<exists>e. Lookup store_a ''main'' = Inl e \<and> errors_Is e ErrNotExist)"
proof -
  have t: "store_trunk store_main = ''main''" by (simp add: store_main_def)
  have h: "\<exists>u \<in> set (Upserts req_trunk). Name u = store_trunk store_main"
    by (simp add: req_trunk_def t)
  have 1: "\<exists>e. Update store_main ''t'' req_trunk = (Some e, store_main)"
    using Update_rejects_trunk [where s = store_main and req = req_trunk and now = "''t''"] h
    by blast
  have k: "branchJSON store_main ''feat-a'' \<noteq> branchJSON store_main ''main''"
    by (simp add: branchJSON_main branchJSON_feat_a)
  have u: "\<forall>u \<in> set (Upserts req_feat_a).
      branchJSON store_main (Name u) \<noteq> branchJSON store_main (store_trunk store_main)"
    using k by (simp add: req_feat_a_def t)
  have 2: "\<exists>e. Lookup store_a ''main'' = Inl e \<and> errors_Is e ErrNotExist"
    using Update_rejects_trunk [where s = store_main and req = req_feat_a and now = "''t''"]
      u Lookup_main_main
    by (simp add: t Update_feat_a)
  from h 1 Lookup_main_main k Update_feat_a 2 show ?thesis by blast
qed

section \<open>Events\<close>

text \<open>
  What a command does to the repository, to the store and to the forge is
  recorded as the list of calls it makes, in order. The answers of the
  collaborators that are not among the sources (the git command wrapper, the
  service, the forge, the prompts) are fields of an environment: each gives the
  answer the call receives at the point where the command makes it.
\<close>

record CommitRequest =
  AllowEmpty :: bool
  Message_cr :: string

record CreateBranchRequest =
  Name_cb :: string
  Head_cb :: string

record FetchOptions =
  Remote_fo :: string
  Refspecs :: "string list"

record BranchDeleteOptions =
  Force_bd :: bool

record PushOptions =
  Remote_po :: string
  Refspec :: string
  Force_po :: bool
  ForceWithLease :: string

text \<open>
  The requests of the newer state package (\<^verbatim>\<open>internal/spice/state\<close>), which
  \<^verbatim>\<open>branch fold\<close> and \<^verbatim>\<open>branch submit\<close> use; its sources are not given, the fields
  are the ones the commands set, and a field a command leaves out has its zero
  value.
\<close>

record spice_UpsertRequest =
  Name_sp :: string
  Base_sp :: string
  BaseHash_sp :: string
  UpstreamBranch :: string
  ChangeForge :: string
  ChangeMetadata :: string

record spice_UpdateRequest =
  Upserts_sp :: "spice_UpsertRequest list"
  Deletes_sp :: "string list"
  Message_sp :: string

definition zero_spice_UpsertRequest :: spice_UpsertRequest where
  "zero_spice_UpsertRequest =
     \<lparr>Name_sp = [], Base_sp = [], BaseHash_sp = [], UpstreamBranch = [],
      ChangeForge = [], ChangeMetadata = []\<rparr>"

record PreparedBranch =
  Name_pb :: string
  Subject_pb :: string
  Body_pb :: string

record SubmitChangeRequest =
  Subject_sc :: string
  Body_sc :: string
  Head_sc :: string
  Base_sc :: string
  Draft_sc :: bool

record EditChangeOptions =
  Base_ec :: string
  Draft_ec :: "bool option"

datatype event =
    EvDetachHead string
  | EvCommit CommitRequest
  | EvCreateBranch CreateBranchRequest
  | EvCheckout string
  | EvUpdate UpdateRequest
  | EvUpstackRestack
  | EvFetch FetchOptions
  | EvUpdateBranch spice_UpdateRequest
  | EvBranchCheckout string
  | EvDeleteBranch string BranchDeleteOptions
  | EvPush PushOptions
  | EvSetBranchUpstream string string
  | EvSubmitChange SubmitChangeRequest
  | EvEditChange string EditChangeOptions
  | EvSavePreparedBranch PreparedBranch
  | EvClearPreparedBranch string
  | EvSyncStackComments "string list"

section \<open>branch create\<close>

record branchCreateCmd =
  Name_cc :: string
  Insert :: bool
  Below :: bool
  Message_cc :: string

text \<open>
  The environment of \<^verbatim>\<open>branch create\<close>: opening the repository and the store, the
  answers of the git commands, of \<^verbatim>\<open>Service.ListAbove\<close> and of the upstack restack
  command, and the time of the store update.
\<close>

record create_env =
  git_Open :: "error option"
  ensureStore :: "error option"
  CurrentBranch_c :: "error + string"
  PeelToCommit_c :: "string \<Rightarrow> error + string"
  DiffIndex_c :: "string \<Rightarrow> error + string list"
  ListAbove_c :: "string \<Rightarrow> error + string list"
  DetachHead_c :: "string \<Rightarrow> error option"
  Commit_c :: "CommitRequest \<Rightarrow> error option"
  CreateBranch_c :: "CreateBranchRequest \<Rightarrow> error option"
  Checkout_c :: "string \<Rightarrow> error option"
  upstackRestack_c :: "error option"
  now_c :: string

text \<open>
  The part of \<^verbatim>\<open>Run\<close> after the head is detached: commit, create the branch, check
  it out, update the store, restack. It returns the error, the store and the calls
  made.
\<close>

definition create_after_detach ::
  "create_env \<Rightarrow> Store \<Rightarrow> branchCreateCmd \<Rightarrow> string \<Rightarrow> string \<Rightarrow> string list \<Rightarrow> string list
     \<Rightarrow> error option \<times> Store \<times> event list" where
  "create_after_detach env s cmd baseName baseHash diff restackOntoNew =
     (let creq = \<lparr>AllowEmpty = (length diff = 0), Message_cr = Message_cc cmd\<rparr>;
          breq = \<lparr>Name_cb = Name_cc cmd, Head_cb = ''HEAD''\<rparr>;
          upserts =
            [\<lparr>Name = Name_cc cmd, Base = baseName, BaseHash = baseHash, PR = None\<rparr>]
            @ map (\<lambda>branch. \<lparr>Name = branch, Base = Name_cc cmd, BaseHash = [], PR = None\<rparr>)
                restackOntoNew;
          msg = (if Below cmd then
                   ''insert branch '' @ Name_cc cmd @ '' below '' @ baseName
                 else if Insert cmd then
                   ''insert branch '' @ Name_cc cmd @ '' above '' @ baseName
                 else ''create branch '' @ Name_cc cmd);
          ureq = \<lparr>Upserts = upserts, Deletes = [], Message = msg\<rparr>;
          done = [EvCommit creq, EvCreateBranch breq, EvCheckout (Name_cc cmd), EvUpdate ureq]
      in
      (case Commit_c env creq of
         Some err \<Rightarrow> (Some (fmt_Errorf_w ''commit: %w'' [] err), s, [EvCommit creq])
       | None \<Rightarrow>
      (case CreateBranch_c env breq of
         Some err \<Rightarrow>
           (Some (fmt_Errorf_w ''create branch: %w'' [] err), s,
            [EvCommit creq, EvCreateBranch breq])
       | None \<Rightarrow>
      (case Checkout_c env (Name_cc cmd) of
         Some err \<Rightarrow>
           (Some (fmt_Errorf_w ''checkout branch: %w'' [] err), s,
            [EvCommit creq, EvCreateBranch breq, EvCheckout (Name_cc cmd)])
       | None \<Rightarrow>
      (case Update s (now_c env) ureq of
         (Some err, s') \<Rightarrow> (Some (fmt_Errorf_w ''update state: %w'' [] err), s', done)
       | (None, s') \<Rightarrow>
           (if Below cmd \<or> Insert cmd
            then (upstackRestack_c env, s', done @ [EvUpstackRestack])
            else (None, s', done)))))))"

text \<open>
  \<^verbatim>\<open>Run\<close>. The store \<open>s\<close> is the one \<^verbatim>\<open>ensureStore\<close> returns. From the detached
  head on, an error makes the deferred function check the original branch out
  again and join its error to the one returned. The store returned is the one
  after the update of \<^verbatim>\<open>Run\<close>; what the restack command does to it afterwards is
  outside the sources.
\<close>

text \<open>
  Lines 59 to 90 of \<^verbatim>\<open>Run\<close>: the base of the new branch and the branches to
  restack onto it, for \<^verbatim>\<open>--below\<close>, for \<^verbatim>\<open>--insert\<close> and for neither.
\<close>

definition create_base ::
  "create_env \<Rightarrow> Store \<Rightarrow> branchCreateCmd \<Rightarrow> string \<Rightarrow> string
     \<Rightarrow> error + (string \<times> string \<times> string list)" where
  "create_base env s cmd currentBranch currentHash =
     (if Below cmd then
        (if currentBranch = Trunk_of s then
           Inl (fmt_Errorf ''--below cannot be used from  %v'' [AStr (Trunk_of s)])
         else
           (case Lookup s currentBranch of
              Inl err \<Rightarrow> Inl (fmt_Errorf ''branch not tracked: %v'' [AStr currentBranch])
            | Inr b \<Rightarrow> Inr (Base_lr b, BaseHash_lr b, [currentBranch])))
      else if Insert cmd then
        (case ListAbove_c env currentBranch of
           Inl err \<Rightarrow>
             Inl (fmt_Errorf_w ''list branches above %s: %w'' [AStr currentBranch] err)
         | Inr aboves \<Rightarrow> Inr (currentBranch, currentHash, aboves))
      else Inr (currentBranch, currentHash, []))"

definition branchCreateCmd_Run ::
  "create_env \<Rightarrow> Store \<Rightarrow> branchCreateCmd \<Rightarrow> error option \<times> Store \<times> event list" where
  "branchCreateCmd_Run env s cmd =
     (case git_Open env of
        Some err \<Rightarrow> (Some (fmt_Errorf_w ''open repository: %w'' [] err), s, [])
      | None \<Rightarrow>
     (case ensureStore env of
        Some err \<Rightarrow> (Some err, s, [])
      | None \<Rightarrow>
     (if Name_cc cmd = [] then (Some (errors_New ''branch name is required''), s, [])
      else
     (case CurrentBranch_c env of
        Inl err \<Rightarrow> (Some (fmt_Errorf_w ''get current branch: %w'' [] err), s, [])
      | Inr currentBranch \<Rightarrow>
     (case PeelToCommit_c env ''HEAD'' of
        Inl err \<Rightarrow> (Some (fmt_Errorf_w ''peel to tree: %w'' [] err), s, [])
      | Inr currentHash \<Rightarrow>
     (case DiffIndex_c env currentHash of
        Inl err \<Rightarrow> (Some (fmt_Errorf_w ''diff index: %w'' [] err), s, [])
      | Inr diff \<Rightarrow>
     (case create_base env s cmd currentBranch currentHash of
        Inl err \<Rightarrow> (Some err, s, [])
      | Inr (baseName, baseHash, restackOntoNew) \<Rightarrow>
     (case DetachHead_c env baseName of
        Some err \<Rightarrow>
          (Some (fmt_Errorf_w ''detach head: %w'' [] err), s, [EvDetachHead baseName])
      | None \<Rightarrow>
     (case create_after_detach env s cmd baseName baseHash diff restackOntoNew of
        (Some err, s', tr) \<Rightarrow>
          (Some (errors_Join err (Checkout_c env currentBranch)), s',
           EvDetachHead baseName # (tr @ [EvCheckout currentBranch]))
      | (None, s', tr) \<Rightarrow> (None, s', EvDetachHead baseName # tr))))))))))"

subsection \<open>Inserting a branch below the current one\<close>

text \<open>
  \<open>below_request\<close> is the update the spec asks of \<^verbatim>\<open>branch create --below\<close> from the
  branch \<open>C\<close> with the record \<open>b\<close>: the new branch takes the base and the base hash
  of \<open>C\<close>, and \<open>C\<close> takes the new branch as its base. The other definitions are the
  scenario S2 of the spec.
\<close>

definition below_request :: "branchCreateCmd \<Rightarrow> string \<Rightarrow> LookupResponse \<Rightarrow> UpdateRequest" where
  "below_request cmd C b =
     \<lparr>Upserts = [\<lparr>Name = Name_cc cmd, Base = Base_lr b, BaseHash = BaseHash_lr b, PR = None\<rparr>,
                 \<lparr>Name = C, Base = Name_cc cmd, BaseHash = [], PR = None\<rparr>],
      Deletes = [],
      Message = ''insert branch '' @ Name_cc cmd @ '' below '' @ Base_lr b\<rparr>"

definition env_below :: create_env where
  "env_below = \<lparr>git_Open = None, ensureStore = None, CurrentBranch_c = Inr ''feat-b'',
     PeelToCommit_c = (\<lambda>r. Inr ''hb''), DiffIndex_c = (\<lambda>h. Inr []),
     ListAbove_c = (\<lambda>b. Inr []), DetachHead_c = (\<lambda>b. None), Commit_c = (\<lambda>r. None),
     CreateBranch_c = (\<lambda>r. None), Checkout_c = (\<lambda>b. None), upstackRestack_c = None,
     now_c = ''t''\<rparr>"

definition store_ab :: Store where
  "store_ab =
     \<lparr>store_b = bk_empty\<lparr>tree := [repoJSON \<mapsto> JRepo \<lparr>Trunk = ''main''\<rparr>,
                                    ''branches/feat-a'' \<mapsto>
                                      JBranch \<lparr>Base_bs = \<lparr>Name_bsb = ''main'', Hash_bsb = ''c0''\<rparr>,
                                               PR_bs = 0\<rparr>,
                                    ''branches/feat-b'' \<mapsto>
                                      JBranch \<lparr>Base_bs = \<lparr>Name_bsb = ''feat-a'', Hash_bsb = ''ha''\<rparr>,
                                               PR_bs = 0\<rparr>],
                          commits := [''initialize store'']\<rparr>,
      store_trunk = ''main''\<rparr>"

definition cmd_mid :: branchCreateCmd where
  "cmd_mid = \<lparr>Name_cc = ''feat-mid'', Insert = False, Below = True, Message_cc = ''mid''\<rparr>"

subsection \<open>Properties of branch create\<close>

lemma create_below_refuses:
  assumes "Below cmd" and "CurrentBranch_c env = Inr C"
    and "C = store_trunk s \<or> (\<exists>e. Lookup s C = Inl e)"
  shows "\<exists>err. branchCreateCmd_Run env s cmd = (Some err, s, [])"
  using assms
  by (auto simp: branchCreateCmd_Run_def create_base_def Trunk_of_def Let_def split: option.splits sum.splits)

lemma create_below_success:
  assumes "Below cmd" and "CurrentBranch_c env = Inr C"
    and "branchCreateCmd_Run env s cmd = (None, s', tr)"
  shows "\<exists>b h diff. C \<noteq> store_trunk s \<and> Lookup s C = Inr b
      \<and> PeelToCommit_c env ''HEAD'' = Inr h \<and> DiffIndex_c env h = Inr diff
      \<and> tr = [EvDetachHead (Base_lr b),
              EvCommit \<lparr>AllowEmpty = (diff = []), Message_cr = Message_cc cmd\<rparr>,
              EvCreateBranch \<lparr>Name_cb = Name_cc cmd, Head_cb = ''HEAD''\<rparr>,
              EvCheckout (Name_cc cmd),
              EvUpdate (below_request cmd C b),
              EvUpstackRestack]
      \<and> Update s (now_c env) (below_request cmd C b) = (None, s')
      \<and> upstackRestack_c env = None"
  using assms
  by (auto simp: branchCreateCmd_Run_def create_after_detach_def create_base_def Trunk_of_def Let_def
      below_request_def
      split: option.splits sum.splits if_splits prod.splits)

lemma Lookup_same_key:
  "branchJSON s a = branchJSON s c \<Longrightarrow> Lookup s a = Inl e \<Longrightarrow> Lookup s c = Inr p \<Longrightarrow> False"
  by (auto simp: Lookup_def Let_def split: sum.splits)

lemma branchJSON_feat_mid: "branchJSON s ''feat-mid'' = ''branches/feat-mid''"
  by (simp add: branchJSON_def branchesDir_def path_Join_def path_Clean_def clean_elem_def)

lemma Lookup_ab_feat_b:
  "Lookup store_ab ''feat-b'' =
     Inr \<lparr>Name_lr = ''feat-b'', Base_lr = ''feat-a'', BaseHash_lr = ''ha'', PR_lr = 0\<rparr>"
  by (simp add: Lookup_def backend_Get_def store_ab_def bk_empty_def branchJSON_feat_b
      repoJSON_def decode_branchState_def)

lemma Lookup_ab_feat_mid:
  "Lookup store_ab ''feat-mid'' = Inl (fmt_Errorf_w ''get branch state: %w'' [] ErrNotExist)"
  by (simp add: Lookup_def backend_Get_def store_ab_def bk_empty_def branchJSON_feat_mid
      repoJSON_def)

lemma Update_ab_below:
  "fst (Update store_ab ''t''
     (below_request cmd_mid ''feat-b''
        \<lparr>Name_lr = ''feat-b'', Base_lr = ''feat-a'', BaseHash_lr = ''ha'', PR_lr = 0\<rparr>)) = None"
  by (rule Update_succeeds) (simp_all add: store_ab_def bk_empty_def below_request_def cmd_mid_def)

lemma store_ab_trunk: "store_trunk store_ab = ''main''"
  by (simp add: store_ab_def)

lemma Run_below_ok: "fst (branchCreateCmd_Run env_below store_ab cmd_mid) = None"
proof -
  let ?req = "\<lparr>Upserts = [\<lparr>Name = ''feat-mid'', Base = ''feat-a'', BaseHash = ''ha'', PR = None\<rparr>,
                         \<lparr>Name = ''feat-b'', Base = ''feat-mid'', BaseHash = [], PR = None\<rparr>],
              Deletes = [], Message = ''insert branch feat-mid below feat-a''\<rparr>"
  have "fst (Update store_ab ''t'' ?req) = None"
    using Update_ab_below by (simp add: below_request_def cmd_mid_def)
  then obtain s' where "Update store_ab ''t'' ?req = (None, s')"
    by (cases "Update store_ab ''t'' ?req") simp
  then show ?thesis
    by (simp add: branchCreateCmd_Run_def create_base_def create_after_detach_def Let_def
        env_below_def Lookup_ab_feat_b cmd_mid_def Trunk_of_def store_ab_trunk)
qed

text \<open>
  C10. \<^verbatim>\<open>branch create --below\<close> from the current branch \<open>C\<close> fails, with no call made
  and the store unchanged, when \<open>C\<close> is the trunk or has no record in the store.
  When it succeeds for a new branch that has no record yet, \<open>C\<close> is not the trunk
  and has a record \<open>b\<close>; the calls are: detach at \<open>b\<close>'s base, commit, create the
  branch, check it out, one store update, and then the upstack restack; the update
  is \<open>below_request\<close>, after which the new branch is recorded with the base and the
  base hash of \<open>C\<close>, and \<open>C\<close> with the new branch as its base.
\<close>

theorem create_below:
  "(Below cmd \<and> CurrentBranch_c env = Inr C \<and> (C = store_trunk s \<or> (\<exists>e. Lookup s C = Inl e))
      \<longrightarrow> (\<exists>err. branchCreateCmd_Run env s cmd = (Some err, s, [])))
   \<and> (Below cmd \<and> CurrentBranch_c env = Inr C
       \<and> Lookup s (Name_cc cmd) = Inl e \<and> errors_Is e ErrNotExist
       \<and> branchCreateCmd_Run env s cmd = (None, s', tr)
      \<longrightarrow> (\<exists>b diff. C \<noteq> store_trunk s \<and> Lookup s C = Inr b
            \<and> tr = [EvDetachHead (Base_lr b),
                    EvCommit \<lparr>AllowEmpty = (diff = []), Message_cr = Message_cc cmd\<rparr>,
                    EvCreateBranch \<lparr>Name_cb = Name_cc cmd, Head_cb = ''HEAD''\<rparr>,
                    EvCheckout (Name_cc cmd),
                    EvUpdate (below_request cmd C b),
                    EvUpstackRestack]
            \<and> Update s (now_c env) (below_request cmd C b) = (None, s')
            \<and> Lookup s' (Name_cc cmd) =
                Inr \<lparr>Name_lr = Name_cc cmd, Base_lr = Base_lr b,
                     BaseHash_lr = BaseHash_lr b, PR_lr = 0\<rparr>
            \<and> Lookup s' C =
                Inr \<lparr>Name_lr = C, Base_lr = Name_cc cmd,
                     BaseHash_lr = BaseHash_lr b, PR_lr = PR_lr b\<rparr>))"
proof (intro conjI impI)
  assume "Below cmd \<and> CurrentBranch_c env = Inr C
    \<and> (C = store_trunk s \<or> (\<exists>e. Lookup s C = Inl e))"
  then show "\<exists>err. branchCreateCmd_Run env s cmd = (Some err, s, [])"
    using create_below_refuses by blast
next
  assume a: "Below cmd \<and> CurrentBranch_c env = Inr C
       \<and> Lookup s (Name_cc cmd) = Inl e \<and> errors_Is e ErrNotExist
       \<and> branchCreateCmd_Run env s cmd = (None, s', tr)"
  then obtain b h diff where b: "C \<noteq> store_trunk s" "Lookup s C = Inr b"
    and tr: "tr = [EvDetachHead (Base_lr b),
              EvCommit \<lparr>AllowEmpty = (diff = []), Message_cr = Message_cc cmd\<rparr>,
              EvCreateBranch \<lparr>Name_cb = Name_cc cmd, Head_cb = ''HEAD''\<rparr>,
              EvCheckout (Name_cc cmd),
              EvUpdate (below_request cmd C b),
              EvUpstackRestack]"
    and upd: "Update s (now_c env) (below_request cmd C b) = (None, s')"
    using create_below_success [of cmd env C s s' tr] by blast
  let ?new = "\<lparr>Name = Name_cc cmd, Base = Base_lr b, BaseHash = BaseHash_lr b, PR = None\<rparr>"
  let ?cur = "\<lparr>Name = C, Base = Name_cc cmd, BaseHash = [], PR = None\<rparr>"
  have ups: "Upserts (below_request cmd C b) = [] @ ?new # [?cur]"
    "Upserts (below_request cmd C b) = [?new] @ ?cur # []"
    and dels: "Deletes (below_request cmd C b) = []"
    by (simp_all add: below_request_def)
  have keys: "branchJSON s C \<noteq> branchJSON s (Name_cc cmd)"
    using a b(2) Lookup_same_key [of s "Name_cc cmd" C e b] by auto
  have new: "Lookup s' (Name_cc cmd) = Inr (upsert_result s ?new)"
    using Update_stores_upsert(1) [OF upd ups(1)] keys dels by simp
  have newbase: "Base_lr (upsert_result s ?new) \<noteq> []"
    using Update_stores_upsert(4) [OF upd ups(1)] keys dels by simp
  have cur: "Lookup s' C = Inr (upsert_result s ?cur)"
    using Update_stores_upsert(1) [OF upd ups(2)] dels by simp
  have curname: "Name_cc cmd \<noteq> []"
    using Update_stores_upsert(2) [OF upd ups(1)] keys dels by simp
  have before_new: "stored_before s (Name_cc cmd) =
      \<lparr>Name_lr = Name_cc cmd, Base_lr = [], BaseHash_lr = [], PR_lr = 0\<rparr>"
    using a by (simp add: stored_before_def)
  have before_cur: "stored_before s C = b" using b(2) by (simp add: stored_before_def)
  have "upsert_result s ?new =
      \<lparr>Name_lr = Name_cc cmd, Base_lr = Base_lr b, BaseHash_lr = BaseHash_lr b, PR_lr = 0\<rparr>"
    using newbase by (auto simp: upsert_result_def before_new)
  moreover have "upsert_result s ?cur =
      \<lparr>Name_lr = C, Base_lr = Name_cc cmd, BaseHash_lr = BaseHash_lr b, PR_lr = PR_lr b\<rparr>"
    using curname by (simp add: upsert_result_def before_cur)
  ultimately show "\<exists>b diff. C \<noteq> store_trunk s \<and> Lookup s C = Inr b
            \<and> tr = [EvDetachHead (Base_lr b),
                    EvCommit \<lparr>AllowEmpty = (diff = []), Message_cr = Message_cc cmd\<rparr>,
                    EvCreateBranch \<lparr>Name_cb = Name_cc cmd, Head_cb = ''HEAD''\<rparr>,
                    EvCheckout (Name_cc cmd),
                    EvUpdate (below_request cmd C b),
                    EvUpstackRestack]
            \<and> Update s (now_c env) (below_request cmd C b) = (None, s')
            \<and> Lookup s' (Name_cc cmd) =
                Inr \<lparr>Name_lr = Name_cc cmd, Base_lr = Base_lr b,
                     BaseHash_lr = BaseHash_lr b, PR_lr = 0\<rparr>
            \<and> Lookup s' C =
                Inr \<lparr>Name_lr = C, Base_lr = Name_cc cmd,
                     BaseHash_lr = BaseHash_lr b, PR_lr = PR_lr b\<rparr>"
    using b tr upd new cur by auto
qed

theorem create_below_witness:
  "Below cmd_mid \<and> CurrentBranch_c env_below = Inr ''feat-b''
   \<and> fst (branchCreateCmd_Run env_below store_ab cmd_mid) = None
   \<and> Lookup (fst (snd (branchCreateCmd_Run env_below store_ab cmd_mid))) ''feat-mid'' =
       Inr \<lparr>Name_lr = ''feat-mid'', Base_lr = ''feat-a'', BaseHash_lr = ''ha'', PR_lr = 0\<rparr>
   \<and> Lookup (fst (snd (branchCreateCmd_Run env_below store_ab cmd_mid))) ''feat-b'' =
       Inr \<lparr>Name_lr = ''feat-b'', Base_lr = ''feat-mid'', BaseHash_lr = ''ha'', PR_lr = 0\<rparr>
   \<and> last (snd (snd (branchCreateCmd_Run env_below store_ab cmd_mid))) = EvUpstackRestack
   \<and> (\<exists>err. branchCreateCmd_Run (env_below\<lparr>CurrentBranch_c := Inr ''main''\<rparr>) store_ab cmd_mid
          = (Some err, store_ab, []))
   \<and> (\<exists>err. branchCreateCmd_Run (env_below\<lparr>CurrentBranch_c := Inr ''feat-mid''\<rparr>) store_ab cmd_mid
          = (Some err, store_ab, []))"
proof -
  let ?run = "branchCreateCmd_Run env_below store_ab cmd_mid"
  have below: "Below cmd_mid" by (simp add: cmd_mid_def)
  have cur: "CurrentBranch_c env_below = Inr ''feat-b''" by (simp add: env_below_def)
  obtain s' tr where run: "?run = (None, s', tr)"
    using Run_below_ok by (cases ?run) auto
  have name: "Name_cc cmd_mid = ''feat-mid''" by (simp add: cmd_mid_def)
  from create_below [where cmd = cmd_mid and env = env_below and C = "''feat-b''"
      and s = store_ab and s' = s' and tr = tr
      and e = "fmt_Errorf_w ''get branch state: %w'' [] ErrNotExist"]
    below cur run
  have "Lookup s' ''feat-mid'' =
       Inr \<lparr>Name_lr = ''feat-mid'', Base_lr = ''feat-a'', BaseHash_lr = ''ha'', PR_lr = 0\<rparr>
     \<and> Lookup s' ''feat-b'' =
       Inr \<lparr>Name_lr = ''feat-b'', Base_lr = ''feat-mid'', BaseHash_lr = ''ha'', PR_lr = 0\<rparr>
     \<and> last tr = EvUpstackRestack"
    by (auto simp: name Lookup_ab_feat_mid Lookup_ab_feat_b)
  then have ok: "Lookup (fst (snd ?run)) ''feat-mid'' =
       Inr \<lparr>Name_lr = ''feat-mid'', Base_lr = ''feat-a'', BaseHash_lr = ''ha'', PR_lr = 0\<rparr>
     \<and> Lookup (fst (snd ?run)) ''feat-b'' =
       Inr \<lparr>Name_lr = ''feat-b'', Base_lr = ''feat-mid'', BaseHash_lr = ''ha'', PR_lr = 0\<rparr>
     \<and> last (snd (snd ?run)) = EvUpstackRestack"
    using run by simp
  have trunk: "\<exists>err. branchCreateCmd_Run (env_below\<lparr>CurrentBranch_c := Inr ''main''\<rparr>)
      store_ab cmd_mid = (Some err, store_ab, [])"
    using create_below [where cmd = cmd_mid and C = "''main''" and s = store_ab
        and env = "env_below\<lparr>CurrentBranch_c := Inr ''main''\<rparr>"] below
    by (simp add: store_ab_trunk)
  have untracked: "\<exists>err. branchCreateCmd_Run (env_below\<lparr>CurrentBranch_c := Inr ''feat-mid''\<rparr>)
      store_ab cmd_mid = (Some err, store_ab, [])"
    using create_below [where cmd = cmd_mid and C = "''feat-mid''" and s = store_ab
        and env = "env_below\<lparr>CurrentBranch_c := Inr ''feat-mid''\<rparr>"] below
    by (simp add: Lookup_ab_feat_mid)
  from below cur Run_below_ok ok trunk untracked show ?thesis by blast
qed

section \<open>Collaborators of \<^verbatim>\<open>branch fold\<close> and \<^verbatim>\<open>branch submit\<close>\<close>

text \<open>
  The repository, the store of the newer state package, the service and the forge
  are outside the sources. Each is a record of the answers its methods give to
  the calls of a command; a call that changes something is also recorded as an
  event by the command that makes it.
\<close>

record ChangeMetadata =
  ForgeID :: string
  ChangeID :: string

record LookupBranchResponse =
  Base_lb :: string
  UpstreamBranch_lb :: string
  Change_lb :: "ChangeMetadata option"

record CommitMessage =
  Subject_cm :: string
  Body_cm :: string

record Repository =
  CurrentBranch :: "error + string"
  PeelToCommit :: "string \<Rightarrow> error + string"
  Fetch :: "FetchOptions \<Rightarrow> error option"
  DeleteBranch :: "string \<Rightarrow> BranchDeleteOptions \<Rightarrow> error option"
  Push :: "PushOptions \<Rightarrow> error option"
  SetBranchUpstream :: "string \<Rightarrow> string \<Rightarrow> error option"
  CommitMessageRange :: "string \<Rightarrow> string \<Rightarrow> error + CommitMessage list"

record spice_Store =
  Trunk_st :: string
  UpdateBranch :: "spice_UpdateRequest \<Rightarrow> error option"
  LoadPreparedBranch :: "string \<Rightarrow> error + PreparedBranch option"
  SavePreparedBranch :: "PreparedBranch \<Rightarrow> error option"
  ClearPreparedBranch :: "string \<Rightarrow> error option"

record ChangeTemplate =
  Filename :: string
  Body_ct :: string

record Service =
  VerifyRestacked :: "string \<Rightarrow> error option"
  LookupBranch :: "string \<Rightarrow> error + LookupBranchResponse"
  ListAbove :: "string \<Rightarrow> error + string list"
  ListChangeTemplates :: "error + ChangeTemplate list"

record world =
  openRepo :: "error option"
  repo :: Repository
  store :: spice_Store
  svc :: Service
  branchCheckoutCmd_Run :: "string \<Rightarrow> error option"

section \<open>branch fold\<close>

record branchFoldCmd =
  Branch_fc :: string

text \<open>
  The switch on the error of \<^verbatim>\<open>VerifyRestacked\<close>, in the order of the source.
\<close>

definition fold_verify_error :: "string \<Rightarrow> error \<Rightarrow> error" where
  "fold_verify_error branch err =
     (if errors_Is err ErrNotExist then
        fmt_Errorf ''branch %v not tracked'' [AStr branch]
      else if errors_As_restack err then
        fmt_Errorf ''branch %v needs to be restacked before it can be folded'' [AStr branch]
      else fmt_Errorf_w ''verify restacked: %w'' [] err)"

text \<open>
  The part of \<^verbatim>\<open>Run\<close> from the fetch on, for the branch, its record \<open>b\<close> and the
  branches above it.
\<close>

definition fold_apply ::
  "world \<Rightarrow> string \<Rightarrow> LookupBranchResponse \<Rightarrow> string list \<Rightarrow> error option \<times> event list" where
  "fold_apply w branch b aboves =
     (let fetch = \<lparr>Remote_fo = ''.'', Refspecs = [branch @ '':'' @ Base_lb b]\<rparr> in
      (case Fetch (repo w) fetch of
         Some err \<Rightarrow> (Some (fmt_Errorf_w ''update base branch: %w'' [] err), [EvFetch fetch])
       | None \<Rightarrow>
      (case PeelToCommit (repo w) (Base_lb b) of
         Inl err \<Rightarrow> (Some (fmt_Errorf_w ''peel to commit: %w'' [] err), [EvFetch fetch])
       | Inr newBaseHash \<Rightarrow>
      (let upserts = map (\<lambda>above. zero_spice_UpsertRequest
                                     \<lparr>Name_sp := above, Base_sp := Base_lb b,
                                      BaseHash_sp := newBaseHash\<rparr>) aboves;
           ureq = \<lparr>Upserts_sp = upserts, Deletes_sp = [branch],
                   Message_sp = ''folding '' @ branch @ '' into '' @ Base_lb b\<rparr>;
           del = \<lparr>Force_bd = True\<rparr>
       in
      (case UpdateBranch (store w) ureq of
         Some err \<Rightarrow>
           (Some (fmt_Errorf_w ''upsert branches: %w'' [] err), [EvFetch fetch, EvUpdateBranch ureq])
       | None \<Rightarrow>
      (case branchCheckoutCmd_Run w (Base_lb b) of
         Some err \<Rightarrow>
           (Some (fmt_Errorf_w ''checkout base: %w'' [] err),
            [EvFetch fetch, EvUpdateBranch ureq, EvBranchCheckout (Base_lb b)])
       | None \<Rightarrow>
      (case DeleteBranch (repo w) branch del of
         Some err \<Rightarrow>
           (Some (fmt_Errorf_w ''delete branch: %w'' [] err),
            [EvFetch fetch, EvUpdateBranch ureq, EvBranchCheckout (Base_lb b),
             EvDeleteBranch branch del])
       | None \<Rightarrow>
           (None,
            [EvFetch fetch, EvUpdateBranch ureq, EvBranchCheckout (Base_lb b),
             EvDeleteBranch branch del]))))))))"

text \<open>
  The branch to fold: the flag, or the current branch when the flag is empty.
\<close>

definition fold_target :: "world \<Rightarrow> branchFoldCmd \<Rightarrow> error + string" where
  "fold_target w cmd =
     (if Branch_fc cmd = [] then
        (case CurrentBranch (repo w) of
           Inl err \<Rightarrow> Inl (fmt_Errorf_w ''get current branch: %w'' [] err)
         | Inr currentBranch \<Rightarrow> Inr currentBranch)
      else Inr (Branch_fc cmd))"

definition fold_branch :: "world \<Rightarrow> string \<Rightarrow> error option \<times> event list" where
  "fold_branch w branch =
     (case VerifyRestacked (svc w) branch of
        Some err \<Rightarrow> (Some (fold_verify_error branch err), [])
      | None \<Rightarrow>
     (case LookupBranch (svc w) branch of
        Inl err \<Rightarrow> (Some (fmt_Errorf_w ''get branch: %w'' [] err), [])
      | Inr b \<Rightarrow>
     (case ListAbove (svc w) branch of
        Inl err \<Rightarrow> (Some (fmt_Errorf_w ''list above: %w'' [] err), [])
      | Inr aboves \<Rightarrow> fold_apply w branch b aboves)))"

definition branchFoldCmd_Run :: "world \<Rightarrow> branchFoldCmd \<Rightarrow> error option \<times> event list" where
  "branchFoldCmd_Run w cmd =
     (case openRepo w of
        Some err \<Rightarrow> (Some err, [])
      | None \<Rightarrow>
     (case fold_target w cmd of
        Inl err \<Rightarrow> (Some err, [])
      | Inr branch \<Rightarrow> fold_branch w branch))"

subsection \<open>The update that folding asks for, and the scenario S3\<close>

text \<open>
  \<open>fold_request\<close> is the store update the spec asks of a fold of \<open>branch\<close> into
  \<open>base\<close>: every branch above is set to the base and to the new hash of the base,
  and the record of \<open>branch\<close> is deleted, in one request.
\<close>

definition fold_request :: "string \<Rightarrow> string \<Rightarrow> string \<Rightarrow> string list \<Rightarrow> spice_UpdateRequest" where
  "fold_request branch base newHash aboves =
     \<lparr>Upserts_sp = map (\<lambda>x. \<lparr>Name_sp = x, Base_sp = base, BaseHash_sp = newHash,
                              UpstreamBranch = [], ChangeForge = [], ChangeMetadata = []\<rparr>) aboves,
      Deletes_sp = [branch],
      Message_sp = ''folding '' @ branch @ '' into '' @ base\<rparr>"

definition repo_fold :: Repository where
  "repo_fold =
     \<lparr>CurrentBranch = Inr ''feat-a'',
      PeelToCommit = (\<lambda>r. if r = ''main'' then Inr ''h1'' else Inl (ErrIO ''unknown revision'')),
      Fetch = (\<lambda>opts. None),
      DeleteBranch = (\<lambda>name opts. None),
      Push = (\<lambda>opts. None),
      SetBranchUpstream = (\<lambda>branch upstream. None),
      CommitMessageRange = (\<lambda>head base. Inr [])\<rparr>"

definition store_fold :: spice_Store where
  "store_fold =
     \<lparr>Trunk_st = ''main'',
      UpdateBranch = (\<lambda>req. None),
      LoadPreparedBranch = (\<lambda>name. Inr None),
      SavePreparedBranch = (\<lambda>p. None),
      ClearPreparedBranch = (\<lambda>name. None)\<rparr>"

definition svc_fold :: Service where
  "svc_fold =
     \<lparr>VerifyRestacked = (\<lambda>name. None),
      LookupBranch = (\<lambda>name.
         if name = ''feat-a''
         then Inr \<lparr>Base_lb = ''main'', UpstreamBranch_lb = [], Change_lb = None\<rparr>
         else if name = ''feat-b''
         then Inr \<lparr>Base_lb = ''feat-a'', UpstreamBranch_lb = [], Change_lb = None\<rparr>
         else Inl ErrNotExist),
      ListAbove = (\<lambda>name. if name = ''feat-a'' then Inr [''feat-b''] else Inr []),
      ListChangeTemplates = Inr []\<rparr>"

definition world_fold :: world where
  "world_fold =
     \<lparr>openRepo = None, repo = repo_fold, store = store_fold, svc = svc_fold,
      branchCheckoutCmd_Run = (\<lambda>name. None)\<rparr>"

definition world_fold_stale :: world where
  "world_fold_stale =
     world_fold\<lparr>svc := svc_fold\<lparr>VerifyRestacked :=
        (\<lambda>name. Some (BranchNeedsRestackError ''main'' ''h0'' ''h1''))\<rparr>\<rparr>"

definition cmd_fold :: branchFoldCmd where
  "cmd_fold = \<lparr>Branch_fc = ''feat-a''\<rparr>"

subsection \<open>Properties of branch fold\<close>

lemma fold_branch_refuses:
  "VerifyRestacked (svc w) B = Some err \<Longrightarrow>
   fold_branch w B = (Some (fold_verify_error B err), [])"
  by (simp add: fold_branch_def)

lemma fold_apply_success:
  assumes "fold_apply w B b aboves = (None, tr)"
  shows "\<exists>newHash. PeelToCommit (repo w) (Base_lb b) = Inr newHash
    \<and> tr = [EvFetch \<lparr>Remote_fo = ''.'', Refspecs = [B @ '':'' @ Base_lb b]\<rparr>,
            EvUpdateBranch (fold_request B (Base_lb b) newHash aboves),
            EvBranchCheckout (Base_lb b),
            EvDeleteBranch B \<lparr>Force_bd = True\<rparr>]
    \<and> Fetch (repo w) \<lparr>Remote_fo = ''.'', Refspecs = [B @ '':'' @ Base_lb b]\<rparr> = None
    \<and> UpdateBranch (store w) (fold_request B (Base_lb b) newHash aboves) = None"
  using assms
  by (auto simp: fold_apply_def fold_request_def zero_spice_UpsertRequest_def Let_def
      split: option.splits sum.splits)

lemma fold_branch_success:
  assumes "fold_branch w B = (None, tr)"
  shows "\<exists>b aboves newHash.
      VerifyRestacked (svc w) B = None
    \<and> LookupBranch (svc w) B = Inr b
    \<and> ListAbove (svc w) B = Inr aboves
    \<and> PeelToCommit (repo w) (Base_lb b) = Inr newHash
    \<and> tr = [EvFetch \<lparr>Remote_fo = ''.'', Refspecs = [B @ '':'' @ Base_lb b]\<rparr>,
            EvUpdateBranch (fold_request B (Base_lb b) newHash aboves),
            EvBranchCheckout (Base_lb b),
            EvDeleteBranch B \<lparr>Force_bd = True\<rparr>]
    \<and> UpdateBranch (store w) (fold_request B (Base_lb b) newHash aboves) = None"
proof -
  from assms obtain b aboves where 1: "VerifyRestacked (svc w) B = None"
    "LookupBranch (svc w) B = Inr b" "ListAbove (svc w) B = Inr aboves"
    "fold_apply w B b aboves = (None, tr)"
    by (auto simp: fold_branch_def split: option.splits sum.splits)
  from fold_apply_success [OF 1(4)] 1(1-3) show ?thesis by blast
qed

lemma fold_target_cmd_fold: "fold_target w cmd_fold = Inr ''feat-a''"
  by (simp add: fold_target_def cmd_fold_def)

lemma Run_fold_ok:
  "branchFoldCmd_Run world_fold cmd_fold =
     (None,
      [EvFetch \<lparr>Remote_fo = ''.'', Refspecs = [''feat-a:main'']\<rparr>,
       EvUpdateBranch (fold_request ''feat-a'' ''main'' ''h1'' [''feat-b'']),
       EvBranchCheckout ''main'',
       EvDeleteBranch ''feat-a'' \<lparr>Force_bd = True\<rparr>])"
  by (simp add: branchFoldCmd_Run_def fold_target_cmd_fold fold_branch_def fold_apply_def
      world_fold_def svc_fold_def repo_fold_def store_fold_def fold_request_def
      zero_spice_UpsertRequest_def Let_def)

text \<open>
  C9. When \<^verbatim>\<open>VerifyRestacked\<close> answers an error for the branch \<open>B\<close> to fold, the
  command fails and makes no call that changes anything; for a needs-restack
  error the failure says that the branch needs to be restacked. When the command
  succeeds, \<^verbatim>\<open>VerifyRestacked\<close> was clean, and the calls are: the fetch of \<open>B\<close> into
  its base, one store update, the checkout of the base, the forced deletion of
  \<open>B\<close>. That update sets every branch above \<open>B\<close> to the base of \<open>B\<close> with the hash the
  base peels to after the fetch, and deletes the record of \<open>B\<close>.
\<close>

theorem fold_needs_restacked:
  "(openRepo w = None \<and> fold_target w cmd = Inr B \<and> VerifyRestacked (svc w) B = Some err
      \<longrightarrow> (\<exists>e. branchFoldCmd_Run w cmd = (Some e, []))
          \<and> (errors_As_restack err \<and> \<not> errors_Is err ErrNotExist
              \<longrightarrow> branchFoldCmd_Run w cmd =
                    (Some (fmt_Errorf ''branch %v needs to be restacked before it can be folded''
                             [AStr B]), [])))
   \<and> (fold_target w cmd = Inr B \<and> branchFoldCmd_Run w cmd = (None, tr)
      \<longrightarrow> (\<exists>b aboves newHash.
             VerifyRestacked (svc w) B = None
           \<and> LookupBranch (svc w) B = Inr b
           \<and> ListAbove (svc w) B = Inr aboves
           \<and> PeelToCommit (repo w) (Base_lb b) = Inr newHash
           \<and> tr = [EvFetch \<lparr>Remote_fo = ''.'', Refspecs = [B @ '':'' @ Base_lb b]\<rparr>,
                   EvUpdateBranch (fold_request B (Base_lb b) newHash aboves),
                   EvBranchCheckout (Base_lb b),
                   EvDeleteBranch B \<lparr>Force_bd = True\<rparr>]
           \<and> UpdateBranch (store w) (fold_request B (Base_lb b) newHash aboves) = None))"
proof (intro conjI impI)
  assume a: "openRepo w = None \<and> fold_target w cmd = Inr B
    \<and> VerifyRestacked (svc w) B = Some err"
  then have run: "branchFoldCmd_Run w cmd = (Some (fold_verify_error B err), [])"
    by (simp add: branchFoldCmd_Run_def fold_branch_refuses)
  then show "\<exists>e. branchFoldCmd_Run w cmd = (Some e, [])" by blast
  assume "errors_As_restack err \<and> \<not> errors_Is err ErrNotExist"
  with run show "branchFoldCmd_Run w cmd =
      (Some (fmt_Errorf ''branch %v needs to be restacked before it can be folded'' [AStr B]), [])"
    by (simp add: fold_verify_error_def)
next
  assume b: "fold_target w cmd = Inr B \<and> branchFoldCmd_Run w cmd = (None, tr)"
  then have "fold_branch w B = (None, tr)"
    by (auto simp: branchFoldCmd_Run_def split: option.splits)
  then show "\<exists>b aboves newHash.
             VerifyRestacked (svc w) B = None
           \<and> LookupBranch (svc w) B = Inr b
           \<and> ListAbove (svc w) B = Inr aboves
           \<and> PeelToCommit (repo w) (Base_lb b) = Inr newHash
           \<and> tr = [EvFetch \<lparr>Remote_fo = ''.'', Refspecs = [B @ '':'' @ Base_lb b]\<rparr>,
                   EvUpdateBranch (fold_request B (Base_lb b) newHash aboves),
                   EvBranchCheckout (Base_lb b),
                   EvDeleteBranch B \<lparr>Force_bd = True\<rparr>]
           \<and> UpdateBranch (store w) (fold_request B (Base_lb b) newHash aboves) = None"
    by (rule fold_branch_success)
qed

theorem fold_needs_restacked_witness:
  "fold_target world_fold cmd_fold = Inr ''feat-a''
   \<and> fst (branchFoldCmd_Run world_fold cmd_fold) = None
   \<and> VerifyRestacked (svc world_fold) ''feat-a'' = None
   \<and> snd (branchFoldCmd_Run world_fold cmd_fold) =
       [EvFetch \<lparr>Remote_fo = ''.'', Refspecs = [''feat-a:main'']\<rparr>,
        EvUpdateBranch
          \<lparr>Upserts_sp = [\<lparr>Name_sp = ''feat-b'', Base_sp = ''main'', BaseHash_sp = ''h1'',
                          UpstreamBranch = [], ChangeForge = [], ChangeMetadata = []\<rparr>],
           Deletes_sp = [''feat-a''], Message_sp = ''folding feat-a into main''\<rparr>,
        EvBranchCheckout ''main'',
        EvDeleteBranch ''feat-a'' \<lparr>Force_bd = True\<rparr>]
   \<and> VerifyRestacked (svc world_fold_stale) ''feat-a''
       = Some (BranchNeedsRestackError ''main'' ''h0'' ''h1'')
   \<and> branchFoldCmd_Run world_fold_stale cmd_fold =
       (Some (fmt_Errorf ''branch %v needs to be restacked before it can be folded''
                [AStr ''feat-a'']), [])"
proof -
  have 1: "VerifyRestacked (svc world_fold) ''feat-a'' = None
     \<and> snd (branchFoldCmd_Run world_fold cmd_fold) =
       [EvFetch \<lparr>Remote_fo = ''.'', Refspecs = [''feat-a:main'']\<rparr>,
        EvUpdateBranch
          \<lparr>Upserts_sp = [\<lparr>Name_sp = ''feat-b'', Base_sp = ''main'', BaseHash_sp = ''h1'',
                          UpstreamBranch = [], ChangeForge = [], ChangeMetadata = []\<rparr>],
           Deletes_sp = [''feat-a''], Message_sp = ''folding feat-a into main''\<rparr>,
        EvBranchCheckout ''main'',
        EvDeleteBranch ''feat-a'' \<lparr>Force_bd = True\<rparr>]"
    using fold_needs_restacked [where w = world_fold and cmd = cmd_fold and B = "''feat-a''"
        and tr = "snd (branchFoldCmd_Run world_fold cmd_fold)"]
      fold_target_cmd_fold [of world_fold] Run_fold_ok
    by (auto simp: world_fold_def svc_fold_def repo_fold_def fold_request_def)
  have v: "VerifyRestacked (svc world_fold_stale) ''feat-a''
       = Some (BranchNeedsRestackError ''main'' ''h0'' ''h1'')"
    by (simp add: world_fold_stale_def)
  have o: "openRepo world_fold_stale = None"
    by (simp add: world_fold_stale_def world_fold_def)
  have 2: "branchFoldCmd_Run world_fold_stale cmd_fold =
       (Some (fmt_Errorf ''branch %v needs to be restacked before it can be folded''
                [AStr ''feat-a'']), [])"
    using fold_needs_restacked [where w = world_fold_stale and cmd = cmd_fold
        and B = "''feat-a''" and err = "BranchNeedsRestackError ''main'' ''h0'' ''h1''"]
      fold_target_cmd_fold [of world_fold_stale] v o
    by simp
  from 1 2 v fold_target_cmd_fold [of world_fold] Run_fold_ok show ?thesis by simp
qed

section \<open>branch submit\<close>

subsection \<open>Options, forge and prompts\<close>

record branchSubmitCmd =
  DryRun :: bool
  Fill :: bool
  Draft :: "bool option"
  NoPublish :: bool
  Force :: bool
  Title :: string
  Body :: string
  Branch :: string

datatype ChangeState = ChangeOpen | ChangeMerged | ChangeClosed

record FindChangesOptions =
  State_fo :: ChangeState
  Limit :: nat

record FindChangeItem =
  ID :: string
  URL :: string
  HeadHash :: string
  BaseName :: string
  Draft_fi :: bool

record SubmitChangeResult =
  ID_sr :: string
  URL_sr :: string

record forge_Repository =
  FindChangesByBranch :: "string \<Rightarrow> FindChangesOptions \<Rightarrow> error + FindChangeItem list"
  FindChangeByID :: "string \<Rightarrow> error + FindChangeItem"
  NewChangeMetadata :: "string \<Rightarrow> error + ChangeMetadata"
  MarshalChangeMetadata :: "ChangeMetadata \<Rightarrow> error + string"
  SubmitChange :: "SubmitChangeRequest \<Rightarrow> error + SubmitChangeResult"
  EditChange :: "string \<Rightarrow> EditChangeOptions \<Rightarrow> error option"

datatype field = titleField | templateField | bodyField | draftField

text \<open>
  What \<^verbatim>\<open>branch submit\<close> needs beyond the repository, the store and the service:
  the remote of the session and the forge repository opened for it, whether
  prompting is allowed, the answer to the recovery prompt, the values the form
  leaves in its fields (given the fields and the values they start with), the
  outcome of syncing the stack comments, and the text \<^verbatim>\<open>fmt.Sprint\<close> prints for the
  pointer \<^verbatim>\<open>cmd.Draft\<close>.
\<close>

record submit_world =
  ensureRemote :: "error + string"
  openRemoteRepository :: "error option"
  remoteRepo :: forge_Repository
  Prompt :: bool
  ui_Run_confirm :: "error + bool"
  form_Run :: "field list \<Rightarrow> string \<times> string \<times> bool \<Rightarrow> error + string \<times> string \<times> bool"
  syncStackComments :: "string list \<Rightarrow> error option"
  Sprint_Draft :: string

definition nl :: string where
  "nl = [CHR 0x0A]"

text \<open>
  \<^verbatim>\<open>must.NotBeBlankf\<close> panics when \<^verbatim>\<open>strings.TrimSpace\<close> leaves nothing, that is when
  the string is made of white space only. Strings are bytes in UTF-8, and white
  space is what \<^verbatim>\<open>unicode.IsSpace\<close> accepts: the ASCII characters tab, line feed,
  vertical tab, form feed, carriage return and space; U+0085 and U+00A0 (two
  bytes); U+1680, U+2000 to U+200A, U+2028, U+2029, U+202F, U+205F and U+3000
  (three bytes). Any other byte sequence, a malformed one too, is not white space.
\<close>

definition is_space :: "char \<Rightarrow> bool" where
  "is_space c = (c \<in> {CHR 0x09, CHR 0x0A, CHR 0x0B, CHR 0x0C, CHR 0x0D, CHR '' ''})"

definition is_space2 :: "char \<Rightarrow> char \<Rightarrow> bool" where
  "is_space2 c1 c2 = (c1 = CHR 0xC2 \<and> (c2 = CHR 0x85 \<or> c2 = CHR 0xA0))"

definition is_space3 :: "char \<Rightarrow> char \<Rightarrow> char \<Rightarrow> bool" where
  "is_space3 c1 c2 c3 =
     ((c1 = CHR 0xE1 \<and> c2 = CHR 0x9A \<and> c3 = CHR 0x80)
      \<or> (c1 = CHR 0xE2 \<and> c2 = CHR 0x80
          \<and> c3 \<in> {CHR 0x80, CHR 0x81, CHR 0x82, CHR 0x83, CHR 0x84, CHR 0x85, CHR 0x86,
                   CHR 0x87, CHR 0x88, CHR 0x89, CHR 0x8A, CHR 0xA8, CHR 0xA9, CHR 0xAF})
      \<or> (c1 = CHR 0xE2 \<and> c2 = CHR 0x81 \<and> c3 = CHR 0x9F)
      \<or> (c1 = CHR 0xE3 \<and> c2 = CHR 0x80 \<and> c3 = CHR 0x80))"

fun blank :: "string \<Rightarrow> bool" where
  "blank [] = True"
| "blank [c1] = is_space c1"
| "blank [c1, c2] = (if is_space c1 then blank [c2] else is_space2 c1 c2)"
| "blank (c1 # c2 # c3 # cs) =
     (if is_space c1 then blank (c2 # c3 # cs)
      else if is_space2 c1 c2 then blank (c3 # cs)
      else if is_space3 c1 c2 c3 then blank cs
      else False)"

subsection \<open>preparePublish and Publish\<close>

record preparedBranch =
  PreparedBranch_of :: PreparedBranch
  head_of :: string
  base_of :: string
  draft_of :: bool

text \<open>
  The default title and body from the commit messages, newest first as
  \<^verbatim>\<open>CommitMessageRange\<close> returns them; the list is not empty.
\<close>

definition defaultTitleBody :: "CommitMessage list \<Rightarrow> string \<times> string" where
  "defaultTitleBody msgs =
     (if length msgs = 1 then (Subject_cm (msgs ! 0), Body_cm (msgs ! 0))
      else
        (Subject_cm (msgs ! (length msgs - 1)),
         foldl (\<lambda>defaultBody msg.
                  (if length defaultBody > 0 then defaultBody @ nl @ nl else defaultBody)
                  @ Subject_cm msg
                  @ (if Body_cm msg \<noteq> [] then nl @ nl @ Body_cm msg else []))
           [] (rev msgs)))"

text \<open>
  Lines 571 to 601: the title, the body, the draft flag and the fields (\<open>flds\<close>) to prompt
  for. \<open>tmpls\<close> is what the channel of change templates delivers: the templates of
  the forge, or none when listing them fails or times out.
\<close>

definition prepare_fields ::
  "submit_world \<Rightarrow> branchSubmitCmd \<Rightarrow> ChangeTemplate list \<Rightarrow> string \<Rightarrow> string
     \<Rightarrow> (string \<times> string \<times> bool option) \<times> field list" where
  "prepare_fields sw cmd tmpls defaultTitle defaultBody =
     (let (title, fields1) =
            (if Title cmd = [] then (defaultTitle, [titleField]) else (Title cmd, []));
          (body, fields2) =
            (if Body cmd = [] then
               (if Fill cmd then
                  (if length tmpls > 0 then defaultBody @ nl @ nl @ Body_ct (tmpls ! 0)
                   else defaultBody, fields1)
                else (defaultBody, fields1 @ [templateField, bodyField]))
             else (Body cmd, fields1));
          (draft, fields3) =
            (if Prompt sw \<and> Draft cmd = None then (Some False, fields2 @ [draftField])
             else (Draft cmd, fields2))
      in ((title, body, draft), fields3))"

text \<open>
  Lines 609 to 640: the offer to recover a prepared branch, then the form. The
  form changes the values of its fields only.
\<close>

definition prepare_prompt ::
  "world \<Rightarrow> submit_world \<Rightarrow> branchSubmitCmd \<Rightarrow> string \<times> string \<times> bool option \<Rightarrow> field list
     \<Rightarrow> (error + string \<times> string \<times> bool option) \<times> event list" where
  "prepare_prompt w sw cmd vals flds =
     (case vals of (title, body, draft) \<Rightarrow>
      (case (case LoadPreparedBranch (store w) (Branch cmd) of
               Inr (Some prePrepared) \<Rightarrow>
                 (case ui_Run_confirm sw of
                    Inl err \<Rightarrow> (Inl (fmt_Errorf_w ''prompt for recovery: %w'' [] err), [])
                  | Inr usePrepared \<Rightarrow>
                      (if usePrepared
                       then (Inr (Subject_pb prePrepared, Body_pb prePrepared), [])
                       else (Inr (title, body), [EvClearPreparedBranch (Branch cmd)])))
             | _ \<Rightarrow> (Inr (title, body), [])) of
         (Inl err, evs) \<Rightarrow> (Inl err, evs)
       | (Inr (title1, body1), evs) \<Rightarrow>
      (case form_Run sw flds (title1, body1, (case draft of Some d \<Rightarrow> d | None \<Rightarrow> False)) of
         Inl err \<Rightarrow> (Inl (fmt_Errorf_w ''prompt form: %w'' [] err), evs)
       | Inr (t, b, d) \<Rightarrow>
           (Inr (if titleField \<in> set flds then t else title1,
                 if bodyField \<in> set flds then b else body1,
                 if draftField \<in> set flds then Some d else draft), evs))))"

definition preparePublish ::
  "world \<Rightarrow> submit_world \<Rightarrow> branchSubmitCmd \<Rightarrow> string \<Rightarrow> (error + preparedBranch) \<times> event list" where
  "preparePublish w sw cmd baseBranch =
     (let tmpls = (case ListChangeTemplates (svc w) of Inl err \<Rightarrow> [] | Inr ts \<Rightarrow> ts) in
      (case CommitMessageRange (repo w) (Branch cmd) baseBranch of
         Inl err \<Rightarrow> (Inl (fmt_Errorf_w ''list commits: %w'' [] err), [])
       | Inr msgs \<Rightarrow>
      (if length msgs = 0 then (Inl (errors_New ''no commits to submit''), [])
       else
      (case prepare_fields sw cmd tmpls (fst (defaultTitleBody msgs)) (snd (defaultTitleBody msgs)) of
         (vals, flds) \<Rightarrow>
      (case (if length flds > 0 \<and> \<not> Fill cmd then
               (if \<not> Prompt sw then
                  (Inl (fmt_Errorf_w ''prompt for commit information: %w'' [] ErrNoPrompt), [])
                else prepare_prompt w sw cmd vals flds)
             else (Inr vals, [])) of
         (Inl err, evs) \<Rightarrow> (Inl err, evs)
       | (Inr (title, body, draftp), evs) \<Rightarrow>
      (if blank title then (Inl (Panic ''CR title must have been set'' []), evs)
       else
         (let storePrepared = \<lparr>Name_pb = Branch cmd, Subject_pb = title, Body_pb = body\<rparr>
          in (Inr \<lparr>PreparedBranch_of = storePrepared,
                   head_of = Branch cmd,
                   base_of = baseBranch,
                   draft_of = (case draftp of Some d \<Rightarrow> d | None \<Rightarrow> False)\<rparr>,
              evs @ [EvSavePreparedBranch storePrepared]))))))))"

definition Publish :: "world \<Rightarrow> submit_world \<Rightarrow> preparedBranch \<Rightarrow> (error + string) \<times> event list" where
  "Publish w sw b =
     (let req = \<lparr>Subject_sc = Subject_pb (PreparedBranch_of b),
                 Body_sc = Body_pb (PreparedBranch_of b),
                 Head_sc = head_of b, Base_sc = base_of b, Draft_sc = draft_of b\<rparr>
      in (case SubmitChange (remoteRepo sw) req of
            Inl err \<Rightarrow> (Inl (fmt_Errorf_w ''create change: %w'' [] err), [EvSubmitChange req])
          | Inr result \<Rightarrow>
              (Inr (ID_sr result),
               [EvSubmitChange req, EvClearPreparedBranch (Name_pb (PreparedBranch_of b))])))"

subsection \<open>run\<close>

text \<open>Lines 116 to 122: the branch to submit is the flag, or the current branch.\<close>

definition submit_target :: "world \<Rightarrow> branchSubmitCmd \<Rightarrow> error + string" where
  "submit_target w cmd =
     (if Branch cmd = [] then
        (case CurrentBranch (repo w) of
           Inl err \<Rightarrow> Inl (fmt_Errorf_w ''get current branch: %w'' [] err)
         | Inr currentBranch \<Rightarrow> Inr currentBranch)
      else Inr (Branch cmd))"

text \<open>
  Lines 124 to 174, with \<^verbatim>\<open>cmd.Branch\<close> set: the checks, the commit of the branch, the
  name of the branch upstream, the remote and the forge repository. The result is
  the record of the branch, the commit hash, the upstream name and the remote.
\<close>

definition submit_preamble ::
  "world \<Rightarrow> submit_world \<Rightarrow> branchSubmitCmd
     \<Rightarrow> error + (LookupBranchResponse \<times> string \<times> string \<times> string)" where
  "submit_preamble w sw cmd =
     (if Branch cmd = Trunk_st (store w) then Inl (errors_New ''cannot submit trunk'')
      else
     (case LookupBranch (svc w) (Branch cmd) of
        Inl err \<Rightarrow> Inl (fmt_Errorf_w ''lookup branch: %w'' [] err)
      | Inr branch \<Rightarrow>
     (case (if \<not> Force cmd then VerifyRestacked (svc w) (Branch cmd) else None) of
        Some err \<Rightarrow> Inl (errors_New ''refusing to submit outdated branch'')
      | None \<Rightarrow>
     (case PeelToCommit (repo w) (Branch cmd) of
        Inl err \<Rightarrow> Inl (fmt_Errorf_w ''peel to commit: %w'' [] err)
      | Inr commitHash \<Rightarrow>
     (let upstreamBranch =
            (if UpstreamBranch_lb branch \<noteq> [] then UpstreamBranch_lb branch else Branch cmd)
      in
     (case ensureRemote sw of
        Inl err \<Rightarrow> Inl err
      | Inr remote \<Rightarrow>
     (case openRemoteRepository sw of
        Some err \<Rightarrow> Inl err
      | None \<Rightarrow> Inr (branch, commitHash, upstreamBranch, remote))))))))"

text \<open>
  Lines 193 to 223: one open change request was found for a branch that has none
  recorded; its metadata is written to the record of the branch.
\<close>

definition adopt_change ::
  "world \<Rightarrow> submit_world \<Rightarrow> branchSubmitCmd \<Rightarrow> FindChangeItem
     \<Rightarrow> (error + FindChangeItem option) \<times> event list" where
  "adopt_change w sw cmd existingChange =
     (case NewChangeMetadata (remoteRepo sw) (ID existingChange) of
        Inl err \<Rightarrow> (Inl (fmt_Errorf_w ''get change metadata: %w'' [] err), [])
      | Inr md \<Rightarrow>
     (case MarshalChangeMetadata (remoteRepo sw) md of
        Inl err \<Rightarrow> (Inl (fmt_Errorf_w ''marshal change metadata: %w'' [] err), [])
      | Inr changeMeta \<Rightarrow>
     (let ureq = \<lparr>Upserts_sp = [zero_spice_UpsertRequest
                                  \<lparr>Name_sp := Branch cmd, ChangeForge := ForgeID md,
                                   ChangeMetadata := changeMeta\<rparr>],
                  Deletes_sp = [],
                  Message_sp = Branch cmd @ '': associate existing CR''\<rparr>
      in
     (case UpdateBranch (store w) ureq of
        Some err \<Rightarrow> (Inl (fmt_Errorf_w ''update state: %w'' [] err), [EvUpdateBranch ureq])
      | None \<Rightarrow> (Inr (Some existingChange), [EvUpdateBranch ureq])))))"

text \<open>
  Lines 179 to 242: the change request of the branch, if there is one. Without a
  recorded one the forge is searched for open change requests of the upstream
  name, three at most.
\<close>

definition find_existing ::
  "world \<Rightarrow> submit_world \<Rightarrow> branchSubmitCmd \<Rightarrow> LookupBranchResponse \<Rightarrow> string
     \<Rightarrow> (error + FindChangeItem option) \<times> event list" where
  "find_existing w sw cmd branch upstreamBranch =
     (case Change_lb branch of
        None \<Rightarrow>
          (case FindChangesByBranch (remoteRepo sw) upstreamBranch
                  \<lparr>State_fo = ChangeOpen, Limit = 3\<rparr> of
             Inl err \<Rightarrow> (Inl (fmt_Errorf_w ''list changes: %w'' [] err), [])
           | Inr changes \<Rightarrow>
               (if length changes = 0 then (Inr None, [])
                else if length changes = 1 then adopt_change w sw cmd (changes ! 0)
                else
                  (Inl (fmt_Errorf ''multiple open change requests for %s'' [AStr (Branch cmd)]),
                   [])))
      | Some change_md \<Rightarrow>
          (case FindChangeByID (remoteRepo sw) (ChangeID change_md) of
             Inl err \<Rightarrow> (Inl (fmt_Errorf_w ''find change: %w'' [] err), [])
           | Inr change \<Rightarrow> (Inr (Some change), [])))"

text \<open>
  The push options of lines 272 to 289 and of lines 371 to 385: without
  \<^verbatim>\<open>--force\<close>, a lease on the upstream name at the commit the remote-tracking ref
  peels to, when it peels.
\<close>

definition push_options :: "world \<Rightarrow> branchSubmitCmd \<Rightarrow> string \<Rightarrow> string \<Rightarrow> string \<Rightarrow> PushOptions" where
  "push_options w cmd remote commitHash upstreamBranch =
     \<lparr>Remote_po = remote,
      Refspec = commitHash @ '':refs/heads/'' @ upstreamBranch,
      Force_po = Force cmd,
      ForceWithLease =
        (if \<not> Force cmd then
           (case PeelToCommit (repo w) (remote @ ''/'' @ upstreamBranch) of
              Inr existingHash \<Rightarrow> upstreamBranch @ '':'' @ existingHash
            | Inl err \<Rightarrow> [])
         else [])\<rparr>"

text \<open>
  Lines 318 to 338: publish the prepared branch, if there is one, and put the
  metadata of the new change request into the upsert that the deferred store
  update will write.
\<close>

definition submit_publish ::
  "world \<Rightarrow> submit_world \<Rightarrow> preparedBranch option \<Rightarrow> spice_UpsertRequest
     \<Rightarrow> error option \<times> spice_UpsertRequest \<times> event list" where
  "submit_publish w sw prepared upsert =
     (case prepared of
        None \<Rightarrow> (None, upsert, [])
      | Some p \<Rightarrow>
     (case Publish w sw p of
        (Inl err, evs) \<Rightarrow> (Some err, upsert, evs)
      | (Inr changeID, evs) \<Rightarrow>
     (case NewChangeMetadata (remoteRepo sw) changeID of
        Inl err \<Rightarrow> (Some (fmt_Errorf_w ''get change metadata: %w'' [] err), upsert, evs)
      | Inr changeMeta \<Rightarrow>
     (case MarshalChangeMetadata (remoteRepo sw) changeMeta of
        Inl err \<Rightarrow> (Some (fmt_Errorf_w ''marshal change ID: %w'' [] err), upsert, evs)
      | Inr changeIDJSON \<Rightarrow>
          (None,
           upsert\<lparr>ChangeForge := ForgeID changeMeta, ChangeMetadata := changeIDJSON\<rparr>,
           evs)))))"

text \<open>
  Lines 245 to 338: no change request exists. After a successful push the store
  update is deferred: it runs when the function returns, whatever happens after
  the push, with the upsert as it is then.
\<close>

definition submit_new ::
  "world \<Rightarrow> submit_world \<Rightarrow> branchSubmitCmd \<Rightarrow> LookupBranchResponse \<Rightarrow> string \<Rightarrow> string \<Rightarrow> string
     \<Rightarrow> error option \<times> event list" where
  "submit_new w sw cmd branch commitHash upstreamBranch remote =
     (if DryRun cmd then (None, [])
      else
     (case (if \<not> NoPublish cmd then
              (case preparePublish w sw cmd (Base_lb branch) of
                 (Inl err, evs) \<Rightarrow> (Inl err, evs)
               | (Inr p, evs) \<Rightarrow> (Inr (Some p), evs))
            else (Inr None, [])) of
        (Inl err, evs) \<Rightarrow> (Some err, evs)
      | (Inr prepared, evs) \<Rightarrow>
     (let pushOpts = push_options w cmd remote commitHash upstreamBranch in
     (case Push (repo w) pushOpts of
        Some err \<Rightarrow> (Some (fmt_Errorf_w ''push branch: %w'' [] err), evs @ [EvPush pushOpts])
      | None \<Rightarrow>
     (let upsert = zero_spice_UpsertRequest
                     \<lparr>Name_sp := Branch cmd, UpstreamBranch := upstreamBranch\<rparr>;
          upstream = remote @ ''/'' @ Branch cmd
      in
     (case submit_publish w sw prepared upsert of
        (err, upsert', evs2) \<Rightarrow>
          (err,
           evs @ [EvPush pushOpts, EvSetBranchUpstream (Branch cmd) upstream] @ evs2
             @ [EvUpdateBranch \<lparr>Upserts_sp = [upsert'], Deletes_sp = [],
                                Message_sp = ''branch submit '' @ Branch cmd\<rparr>])))))))"

text \<open>Lines 345 to 355: what differs between the change request and the branch.\<close>

definition submit_updates ::
  "submit_world \<Rightarrow> branchSubmitCmd \<Rightarrow> LookupBranchResponse \<Rightarrow> string \<Rightarrow> FindChangeItem
     \<Rightarrow> string list" where
  "submit_updates sw cmd branch commitHash pull =
     (if HeadHash pull \<noteq> commitHash then [''push branch''] else [])
     @ (if BaseName pull \<noteq> Base_lb branch then [''set base to '' @ Base_lb branch] else [])
     @ (if (case Draft cmd of Some d \<Rightarrow> Draft_fi pull \<noteq> d | None \<Rightarrow> False)
        then [''set draft to '' @ Sprint_Draft sw] else [])"

text \<open>Lines 340 to 404: a change request exists.\<close>

definition submit_update ::
  "world \<Rightarrow> submit_world \<Rightarrow> branchSubmitCmd \<Rightarrow> LookupBranchResponse \<Rightarrow> string \<Rightarrow> string \<Rightarrow> string
     \<Rightarrow> FindChangeItem \<Rightarrow> error option \<times> event list" where
  "submit_update w sw cmd branch commitHash upstreamBranch remote pull =
     (let updates = submit_updates sw cmd branch commitHash pull;
          pushOpts = push_options w cmd remote commitHash upstreamBranch;
          opts = \<lparr>Base_ec = Base_lb branch, Draft_ec = Draft cmd\<rparr>
      in
     (if length updates = 0 then (None, [])
      else if DryRun cmd then (None, [])
      else
     (case (if HeadHash pull \<noteq> commitHash then
              (case Push (repo w) pushOpts of
                 Some err \<Rightarrow> (Some (fmt_Errorf_w ''push branch: %w'' [] err), [EvPush pushOpts])
               | None \<Rightarrow> (None, [EvPush pushOpts]))
            else (None, [])) of
        (Some err, evs) \<Rightarrow> (Some err, evs)
      | (None, evs) \<Rightarrow>
     (if length updates > 0 then
        (case EditChange (remoteRepo sw) (ID pull) opts of
           Some err \<Rightarrow>
             (Some (fmt_Errorf_w ''edit CR %v: %w'' [AStr (ID pull)] err),
              evs @ [EvEditChange (ID pull) opts])
         | None \<Rightarrow> (None, evs @ [EvEditChange (ID pull) opts]))
      else (None, evs)))))"

definition run :: "world \<Rightarrow> submit_world \<Rightarrow> branchSubmitCmd \<Rightarrow> error option \<times> event list" where
  "run w sw cmd0 =
     (case submit_target w cmd0 of
        Inl err \<Rightarrow> (Some err, [])
      | Inr name \<Rightarrow>
     (let cmd = cmd0\<lparr>Branch := name\<rparr> in
     (case submit_preamble w sw cmd of
        Inl err \<Rightarrow> (Some err, [])
      | Inr (branch, commitHash, upstreamBranch, remote) \<Rightarrow>
     (case find_existing w sw cmd branch upstreamBranch of
        (Inl err, evs) \<Rightarrow> (Some err, evs)
      | (Inr existingChange, evs) \<Rightarrow>
     (case (case existingChange of
              None \<Rightarrow> submit_new w sw cmd branch commitHash upstreamBranch remote
            | Some pull \<Rightarrow> submit_update w sw cmd branch commitHash upstreamBranch remote pull) of
        (err, evs2) \<Rightarrow> (err, evs @ evs2))))))"

text \<open>
  \<^verbatim>\<open>Run\<close>: after a run without error and without \<^verbatim>\<open>--dry-run\<close>, the stack comments
  of the branches of the session are synced; the session holds the branch unless
  \<^verbatim>\<open>--no-publish\<close> was given.
\<close>

definition branchSubmitCmd_Run ::
  "world \<Rightarrow> submit_world \<Rightarrow> branchSubmitCmd \<Rightarrow> error option \<times> event list" where
  "branchSubmitCmd_Run w sw cmd =
     (case openRepo w of
        Some err \<Rightarrow> (Some err, [])
      | None \<Rightarrow>
     (case run w sw cmd of
        (Some err, evs) \<Rightarrow> (Some err, evs)
      | (None, evs) \<Rightarrow>
     (if DryRun cmd then (None, evs)
      else
     (let branches =
            (if \<not> NoPublish cmd
             then (case submit_target w cmd of Inr name \<Rightarrow> [name] | Inl err \<Rightarrow> [])
             else [])
      in (syncStackComments sw branches, evs @ [EvSyncStackComments branches])))))"

subsection \<open>Kinds of calls\<close>

text \<open>
  The calls that update a branch record of the store, and the calls that save or
  clear the prepared title and body of a branch.
\<close>

definition is_UpdateBranch :: "event \<Rightarrow> bool" where
  "is_UpdateBranch ev = (case ev of EvUpdateBranch r \<Rightarrow> True | _ \<Rightarrow> False)"

definition is_prepared_event :: "event \<Rightarrow> bool" where
  "is_prepared_event ev =
     (case ev of EvSavePreparedBranch p \<Rightarrow> True | EvClearPreparedBranch n \<Rightarrow> True | _ \<Rightarrow> False)"

text \<open>
  The update the spec asks of the adopt transition for the branch \<open>branchName\<close>:
  one upsert that names the branch and carries the forge id of the metadata \<open>md\<close>
  and its marshalled form \<open>changeMeta\<close>, every other field left as it is stored.
\<close>

definition adopt_request :: "string \<Rightarrow> ChangeMetadata \<Rightarrow> string \<Rightarrow> spice_UpdateRequest" where
  "adopt_request branchName md changeMeta =
     \<lparr>Upserts_sp = [\<lparr>Name_sp = branchName, Base_sp = [], BaseHash_sp = [],
                     UpstreamBranch = [], ChangeForge = ForgeID md,
                     ChangeMetadata = changeMeta\<rparr>],
      Deletes_sp = [],
      Message_sp = branchName @ '': associate existing CR''\<rparr>"

text \<open>The deferred store update of a submission of \<open>name\<close> with the upsert \<open>u\<close>.\<close>

definition deferred_update :: "string \<Rightarrow> spice_UpsertRequest \<Rightarrow> event" where
  "deferred_update name u =
     EvUpdateBranch \<lparr>Upserts_sp = [u], Deletes_sp = [], Message_sp = ''branch submit '' @ name\<rparr>"

subsection \<open>Scenarios of branch submit\<close>

text \<open>
  The branch \<^verbatim>\<open>feat-a\<close> on \<^verbatim>\<open>main\<close>, at the commit \<^verbatim>\<open>h2\<close>, pushed before at \<^verbatim>\<open>h1\<close> to
  the remote \<^verbatim>\<open>origin\<close>; \<open>cr7\<close> is an open change request for it at \<^verbatim>\<open>h1\<close> with base
  \<^verbatim>\<open>main\<close>. The record of the branch holds the change \<open>ch\<close>, and the forge finds
  the change requests \<open>found\<close> for the branch.
\<close>

definition repo_sub :: Repository where
  "repo_sub =
     \<lparr>CurrentBranch = Inr ''feat-a'',
      PeelToCommit = (\<lambda>r. if r = ''feat-a'' then Inr ''h2''
                          else if r = ''origin/feat-a'' then Inr ''h1''
                          else Inl (ErrIO ''unknown revision'')),
      Fetch = (\<lambda>opts. None),
      DeleteBranch = (\<lambda>name opts. None),
      Push = (\<lambda>opts. None),
      SetBranchUpstream = (\<lambda>branch upstream. None),
      CommitMessageRange = (\<lambda>h b. Inr [\<lparr>Subject_cm = ''add a'', Body_cm = ''body''\<rparr>])\<rparr>"

definition store_sub :: spice_Store where
  "store_sub =
     \<lparr>Trunk_st = ''main'',
      UpdateBranch = (\<lambda>req. None),
      LoadPreparedBranch = (\<lambda>name. Inr None),
      SavePreparedBranch = (\<lambda>p. None),
      ClearPreparedBranch = (\<lambda>name. None)\<rparr>"

definition svc_sub :: "ChangeMetadata option \<Rightarrow> Service" where
  "svc_sub ch =
     \<lparr>VerifyRestacked = (\<lambda>name. None),
      LookupBranch = (\<lambda>name.
         if name = ''feat-a''
         then Inr \<lparr>Base_lb = ''main'', UpstreamBranch_lb = [], Change_lb = ch\<rparr>
         else Inl ErrNotExist),
      ListAbove = (\<lambda>name. Inr []),
      ListChangeTemplates = Inr []\<rparr>"

definition world_sub :: "ChangeMetadata option \<Rightarrow> world" where
  "world_sub ch =
     \<lparr>openRepo = None, repo = repo_sub, store = store_sub, svc = svc_sub ch,
      branchCheckoutCmd_Run = (\<lambda>name. None)\<rparr>"

definition cr7 :: FindChangeItem where
  "cr7 = \<lparr>ID = ''#7'', URL = ''https://example.com/pull/7'', HeadHash = ''h1'',
          BaseName = ''main'', Draft_fi = False\<rparr>"

definition forge_sub :: "FindChangeItem list \<Rightarrow> forge_Repository" where
  "forge_sub found =
     \<lparr>FindChangesByBranch = (\<lambda>name opts. Inr found),
      FindChangeByID = (\<lambda>id. if id = ''#7'' then Inr cr7 else Inl ErrNotExist),
      NewChangeMetadata = (\<lambda>id. Inr \<lparr>ForgeID = ''github'', ChangeID = id\<rparr>),
      MarshalChangeMetadata = (\<lambda>md. Inr (''{number: '' @ ChangeID md @ ''}'')),
      SubmitChange = (\<lambda>req. Inr \<lparr>ID_sr = ''#8'', URL_sr = ''https://example.com/pull/8''\<rparr>),
      EditChange = (\<lambda>id opts. None)\<rparr>"

definition sw_sub :: "FindChangeItem list \<Rightarrow> submit_world" where
  "sw_sub found =
     \<lparr>ensureRemote = Inr ''origin'', openRemoteRepository = None,
      remoteRepo = forge_sub found, Prompt = False,
      ui_Run_confirm = Inr False, form_Run = (\<lambda>flds vals. Inr vals),
      syncStackComments = (\<lambda>branches. None), Sprint_Draft = ''0xc000012345''\<rparr>"

definition cmd_sub :: branchSubmitCmd where
  "cmd_sub = \<lparr>DryRun = False, Fill = False, Draft = None, NoPublish = False, Force = False,
              Title = [], Body = [], Branch = []\<rparr>"

definition md7 :: ChangeMetadata where
  "md7 = \<lparr>ForgeID = ''github'', ChangeID = ''#7''\<rparr>"

definition cmd_fill :: branchSubmitCmd where
  "cmd_fill = cmd_sub\<lparr>Fill := True\<rparr>"

definition cmd_dry :: branchSubmitCmd where
  "cmd_dry = cmd_sub\<lparr>DryRun := True\<rparr>"

definition branch_a :: "ChangeMetadata option \<Rightarrow> LookupBranchResponse" where
  "branch_a ch = \<lparr>Base_lb = ''main'', UpstreamBranch_lb = [], Change_lb = ch\<rparr>"

definition push_a :: PushOptions where
  "push_a = \<lparr>Remote_po = ''origin'', Refspec = ''h2:refs/heads/feat-a'', Force_po = False,
             ForceWithLease = ''feat-a:h1''\<rparr>"

definition adopt_a :: spice_UpdateRequest where
  "adopt_a =
     \<lparr>Upserts_sp = [\<lparr>Name_sp = ''feat-a'', Base_sp = [], BaseHash_sp = [], UpstreamBranch = [],
                     ChangeForge = ''github'', ChangeMetadata = ''{number: #7}''\<rparr>],
      Deletes_sp = [], Message_sp = ''feat-a: associate existing CR''\<rparr>"

definition submit_a :: SubmitChangeRequest where
  "submit_a = \<lparr>Subject_sc = ''add a'', Body_sc = ''body'', Head_sc = ''feat-a'',
               Base_sc = ''main'', Draft_sc = False\<rparr>"

lemmas scenario_defs =
  world_sub_def sw_sub_def repo_sub_def store_sub_def svc_sub_def forge_sub_def cmd_sub_def
  cmd_fill_def cmd_dry_def cr7_def md7_def branch_a_def push_a_def adopt_a_def submit_a_def

subsection \<open>Properties of branch submit\<close>

lemma adopt_change_cases:
  assumes "adopt_change w sw cmd c = (r, evs)"
  shows "(evs = [] \<and> (\<exists>e. r = Inl e))
       \<or> (\<exists>md meta. NewChangeMetadata (remoteRepo sw) (ID c) = Inr md
            \<and> MarshalChangeMetadata (remoteRepo sw) md = Inr meta
            \<and> evs = [EvUpdateBranch (adopt_request (Branch cmd) md meta)]
            \<and> (case UpdateBranch (store w) (adopt_request (Branch cmd) md meta) of
                  None \<Rightarrow> r = Inr (Some c) | Some e \<Rightarrow> (\<exists>e'. r = Inl e')))"
  using assms
  by (auto simp: adopt_change_def adopt_request_def zero_spice_UpsertRequest_def Let_def
      split: sum.splits option.splits)

lemma find_existing_cases:
  assumes "find_existing w sw cmd branch up = (r, evs)"
  shows "(evs = [] \<and> (Change_lb branch = None \<longrightarrow> r \<noteq> Inr None \<longrightarrow>
              (\<exists>e. r = Inl e)))
       \<or> (\<exists>c md meta. Change_lb branch = None
            \<and> FindChangesByBranch (remoteRepo sw) up \<lparr>State_fo = ChangeOpen, Limit = 3\<rparr> = Inr [c]
            \<and> NewChangeMetadata (remoteRepo sw) (ID c) = Inr md
            \<and> MarshalChangeMetadata (remoteRepo sw) md = Inr meta
            \<and> evs = [EvUpdateBranch (adopt_request (Branch cmd) md meta)]
            \<and> (case UpdateBranch (store w) (adopt_request (Branch cmd) md meta) of
                  None \<Rightarrow> r = Inr (Some c) | Some e \<Rightarrow> (\<exists>e'. r = Inl e')))"
proof (cases "Change_lb branch")
  case (Some ch)
  with assms show ?thesis by (auto simp: find_existing_def split: sum.splits)
next
  case None
  show ?thesis
  proof (cases "FindChangesByBranch (remoteRepo sw) up \<lparr>State_fo = ChangeOpen, Limit = 3\<rparr>")
    case (Inl e)
    with None assms show ?thesis by (auto simp: find_existing_def)
  next
    case (Inr changes)
    show ?thesis
    proof (cases "length changes = 1")
      case True
      then obtain c where c: "changes = [c]" by (cases changes) auto
      with None Inr assms have "adopt_change w sw cmd c = (r, evs)"
        by (simp add: find_existing_def)
      from adopt_change_cases [OF this] None Inr c show ?thesis by auto
    next
      case False
      with None Inr assms show ?thesis
        by (auto simp: find_existing_def split: if_splits)
    qed
  qed
qed

lemma prepare_prompt_events:
  "prepare_prompt w sw cmd vals flds = (r, evs) \<Longrightarrow> \<forall>ev \<in> set evs. is_prepared_event ev"
  by (auto simp: prepare_prompt_def is_prepared_event_def
      split: prod.splits sum.splits option.splits if_splits)

lemma preparePublish_events:
  assumes "preparePublish w sw cmd baseBranch = (r, evs)"
  shows "\<forall>ev \<in> set evs. is_prepared_event ev"
proof -
  have "\<And>vals flds r' evs'. prepare_prompt w sw cmd vals flds = (r', evs')
      \<Longrightarrow> \<forall>ev \<in> set evs'. is_prepared_event ev"
    by (rule prepare_prompt_events)
  with assms show ?thesis
    by (fastforce simp: preparePublish_def Let_def is_prepared_event_def
        split: prod.splits sum.splits if_splits)
qed

lemma Publish_cases:
  assumes "Publish w sw p = (r, evs)"
  shows "\<exists>req. (evs = [EvSubmitChange req] \<and> (\<exists>e. r = Inl e))
             \<or> (evs = [EvSubmitChange req, EvClearPreparedBranch (Name_pb (PreparedBranch_of p))]
                 \<and> (\<exists>i. r = Inr i))"
  using assms by (auto simp: Publish_def Let_def split: sum.splits)

lemma submit_publish_cases:
  assumes "submit_publish w sw prepared upsert = (err, upsert', evs)"
  shows "Name_sp upsert' = Name_sp upsert \<and> UpstreamBranch upsert' = UpstreamBranch upsert
       \<and> (evs = [] \<and> prepared = None
           \<or> (\<exists>req n. prepared \<noteq> None \<and>
                 (evs = [EvSubmitChange req]
                  \<or> evs = [EvSubmitChange req, EvClearPreparedBranch n])))"
proof (cases prepared)
  case None
  with assms show ?thesis by (simp add: submit_publish_def)
next
  case (Some p)
  obtain r evs0 where P: "Publish w sw p = (r, evs0)" by (cases "Publish w sw p")
  from Publish_cases [OF P] Some P assms show ?thesis
    by (auto simp: submit_publish_def split: sum.splits)
qed

lemma submit_new_cases:
  assumes "submit_new w sw cmd branch commitHash up remote = (err, tr)"
  shows "(tr = [] \<and> DryRun cmd)
       \<or> (\<not> DryRun cmd \<and> (\<forall>ev \<in> set tr. is_prepared_event ev) \<and> err \<noteq> None)
       \<or> (\<not> DryRun cmd \<and> (\<exists>evs. tr = evs @ [EvPush (push_options w cmd remote commitHash up)]
             \<and> (\<forall>ev \<in> set evs. is_prepared_event ev)
             \<and> Push (repo w) (push_options w cmd remote commitHash up) \<noteq> None \<and> err \<noteq> None))
       \<or> (\<not> DryRun cmd \<and> (\<exists>evs evs2 u. tr = evs @ [EvPush (push_options w cmd remote commitHash up),
                                  EvSetBranchUpstream (Branch cmd) (remote @ ''/'' @ Branch cmd)]
                                @ evs2 @ [deferred_update (Branch cmd) u]
             \<and> (\<forall>ev \<in> set evs. is_prepared_event ev)
             \<and> Push (repo w) (push_options w cmd remote commitHash up) = None
             \<and> Name_sp u = Branch cmd \<and> UpstreamBranch u = up
             \<and> (evs2 = [] \<and> NoPublish cmd
                 \<or> (\<exists>req n. \<not> NoPublish cmd \<and>
                      (evs2 = [EvSubmitChange req]
                       \<or> evs2 = [EvSubmitChange req, EvClearPreparedBranch n])))))"
proof (cases "DryRun cmd")
  case True
  with assms show ?thesis by (simp add: submit_new_def)
next
  case False
  define prep where "prep = (if \<not> NoPublish cmd then
              (case preparePublish w sw cmd (Base_lb branch) of
                 (Inl err, evs) \<Rightarrow> (Inl err, evs)
               | (Inr p, evs) \<Rightarrow> (Inr (Some p), evs))
            else (Inr None, []))"
  obtain pr evs where prep: "prep = (pr, evs)" by (cases prep)
  have evs: "\<forall>ev \<in> set evs. is_prepared_event ev"
    using prep preparePublish_events [of w sw cmd "Base_lb branch"]
    by (auto simp: prep_def split: if_splits prod.splits sum.splits)
  have np: "\<And>p. pr = Inr (Some p) \<Longrightarrow> \<not> NoPublish cmd" "pr = Inr None \<Longrightarrow> NoPublish cmd"
    using prep by (auto simp: prep_def split: if_splits prod.splits sum.splits)
  show ?thesis
  proof (cases pr)
    case (Inl e)
    with assms False prep evs show ?thesis
      by (auto simp: submit_new_def prep_def [symmetric])
  next
    case (Inr prepared)
    let ?po = "push_options w cmd remote commitHash up"
    show ?thesis
    proof (cases "Push (repo w) ?po")
      case (Some e)
      with assms False prep evs Inr show ?thesis
        by (auto simp: submit_new_def prep_def [symmetric] Let_def)
    next
      case None
      let ?u0 = "zero_spice_UpsertRequest\<lparr>Name_sp := Branch cmd, UpstreamBranch := up\<rparr>"
      obtain e2 u evs2 where sp: "submit_publish w sw prepared ?u0 = (e2, u, evs2)"
        by (cases "submit_publish w sw prepared ?u0") auto
      from assms False prep Inr None sp
      have tr: "tr = evs @ [EvPush ?po, EvSetBranchUpstream (Branch cmd) (remote @ ''/'' @ Branch cmd)]
                  @ evs2 @ [deferred_update (Branch cmd) u]"
        by (auto simp: submit_new_def prep_def [symmetric] Let_def deferred_update_def)
      from submit_publish_cases [OF sp]
      have u: "Name_sp u = Branch cmd" "UpstreamBranch u = up"
        and ev2: "evs2 = [] \<and> prepared = None
           \<or> (\<exists>req n. prepared \<noteq> None \<and>
                 (evs2 = [EvSubmitChange req]
                  \<or> evs2 = [EvSubmitChange req, EvClearPreparedBranch n]))"
        by simp_all
      from ev2 np Inr have "evs2 = [] \<and> NoPublish cmd
                 \<or> (\<exists>req n. \<not> NoPublish cmd \<and>
                      (evs2 = [EvSubmitChange req]
                       \<or> evs2 = [EvSubmitChange req, EvClearPreparedBranch n]))"
        by auto
      with False tr evs None u show ?thesis by blast
    qed
  qed
qed

lemma submit_update_cases:
  assumes "submit_update w sw cmd branch commitHash up remote pull = (err, tr)"
  shows "tr = (if submit_updates sw cmd branch commitHash pull = [] \<or> DryRun cmd then []
               else (if HeadHash pull \<noteq> commitHash
                     then [EvPush (push_options w cmd remote commitHash up)] else [])
                    @ (if HeadHash pull \<noteq> commitHash
                          \<and> Push (repo w) (push_options w cmd remote commitHash up) \<noteq> None
                       then []
                       else [EvEditChange (ID pull)
                               \<lparr>Base_ec = Base_lb branch, Draft_ec = Draft cmd\<rparr>]))"
  using assms
  by (auto simp: submit_update_def Let_def split: if_splits option.splits prod.splits)

lemma run_preamble:
  assumes "snd (run w sw cmd0) \<noteq> []"
  shows "\<exists>name branch commitHash up remote.
           submit_target w cmd0 = Inr name
         \<and> submit_preamble w sw (cmd0\<lparr>Branch := name\<rparr>) = Inr (branch, commitHash, up, remote)"
  using assms by (auto simp: run_def Let_def split: sum.splits prod.splits)

lemma run_unfold:
  assumes "submit_target w cmd0 = Inr name"
    and "submit_preamble w sw (cmd0\<lparr>Branch := name\<rparr>) = Inr (branch, commitHash, up, remote)"
    and "find_existing w sw (cmd0\<lparr>Branch := name\<rparr>) branch up = (r, evs)"
  shows "run w sw cmd0 =
     (case r of
        Inl err \<Rightarrow> (Some err, evs)
      | Inr None \<Rightarrow>
          (fst (submit_new w sw (cmd0\<lparr>Branch := name\<rparr>) branch commitHash up remote),
           evs @ snd (submit_new w sw (cmd0\<lparr>Branch := name\<rparr>) branch commitHash up remote))
      | Inr (Some pull) \<Rightarrow>
          (fst (submit_update w sw (cmd0\<lparr>Branch := name\<rparr>) branch commitHash up remote pull),
           evs @ snd (submit_update w sw (cmd0\<lparr>Branch := name\<rparr>) branch commitHash up remote pull)))"
  using assms
  by (auto simp: run_def Let_def split: sum.splits prod.splits option.splits)

lemma prepared_not_submit: "is_prepared_event ev \<Longrightarrow> ev \<noteq> EvSubmitChange req"
  by (auto simp: is_prepared_event_def)

lemma prepared_not_update: "is_prepared_event ev \<Longrightarrow> ev \<noteq> EvUpdateBranch r"
  by (auto simp: is_prepared_event_def)

lemma target_a:
  "submit_target (world_sub ch) cmd_sub = Inr ''feat-a''"
  "submit_target (world_sub ch) cmd_fill = Inr ''feat-a''"
  "submit_target (world_sub ch) cmd_dry = Inr ''feat-a''"
  by (simp_all add: submit_target_def scenario_defs)

lemma preamble_a:
  "submit_preamble (world_sub ch) (sw_sub found) (cmd_sub\<lparr>Branch := ''feat-a''\<rparr>)
     = Inr (branch_a ch, ''h2'', ''feat-a'', ''origin'')"
  "submit_preamble (world_sub ch) (sw_sub found) (cmd_fill\<lparr>Branch := ''feat-a''\<rparr>)
     = Inr (branch_a ch, ''h2'', ''feat-a'', ''origin'')"
  "submit_preamble (world_sub ch) (sw_sub found) (cmd_dry\<lparr>Branch := ''feat-a''\<rparr>)
     = Inr (branch_a ch, ''h2'', ''feat-a'', ''origin'')"
  by (simp_all add: submit_preamble_def scenario_defs)

lemma push_options_a:
  "push_options (world_sub ch) (cmd_sub\<lparr>Branch := ''feat-a''\<rparr>) ''origin'' ''h2'' ''feat-a'' = push_a"
  "push_options (world_sub ch) (cmd_fill\<lparr>Branch := ''feat-a''\<rparr>) ''origin'' ''h2'' ''feat-a'' = push_a"
  by (simp_all add: push_options_def scenario_defs)

lemma find_existing_a:
  "find_existing (world_sub (Some md7)) (sw_sub []) (cmd_sub\<lparr>Branch := ''feat-a''\<rparr>)
     (branch_a (Some md7)) ''feat-a'' = (Inr (Some cr7), [])"
  "find_existing (world_sub None) (sw_sub [cr7]) (cmd_sub\<lparr>Branch := ''feat-a''\<rparr>)
     (branch_a None) ''feat-a'' = (Inr (Some cr7), [EvUpdateBranch adopt_a])"
  "find_existing (world_sub None) (sw_sub [cr7]) (cmd_dry\<lparr>Branch := ''feat-a''\<rparr>)
     (branch_a None) ''feat-a'' = (Inr (Some cr7), [EvUpdateBranch adopt_a])"
  "find_existing (world_sub None) (sw_sub []) (cmd_fill\<lparr>Branch := ''feat-a''\<rparr>)
     (branch_a None) ''feat-a'' = (Inr None, [])"
  by (simp_all add: find_existing_def adopt_change_def Let_def
      zero_spice_UpsertRequest_def scenario_defs)

lemma updates_a:
  "submit_updates (sw_sub found) (cmd_sub\<lparr>Branch := ''feat-a''\<rparr>) (branch_a ch) ''h2'' cr7
     = [''push branch'']"
  "submit_updates (sw_sub found) (cmd_dry\<lparr>Branch := ''feat-a''\<rparr>) (branch_a ch) ''h2'' cr7
     = [''push branch'']"
  by (simp_all add: submit_updates_def scenario_defs)

lemma submit_update_a:
  "submit_update (world_sub ch) (sw_sub found) (cmd_sub\<lparr>Branch := ''feat-a''\<rparr>) (branch_a ch)
     ''h2'' ''feat-a'' ''origin'' cr7 =
   (None, [EvPush push_a, EvEditChange ''#7'' \<lparr>Base_ec = ''main'', Draft_ec = None\<rparr>])"
  by (simp add: submit_update_def updates_a push_options_a)
     (simp add: scenario_defs)

lemma submit_update_dry:
  "submit_update (world_sub ch) (sw_sub found) (cmd_dry\<lparr>Branch := ''feat-a''\<rparr>) (branch_a ch)
     ''h2'' ''feat-a'' ''origin'' cr7 = (None, [])"
  by (simp add: submit_update_def updates_a) (simp add: scenario_defs)

lemma run_existing_a:
  "run (world_sub (Some md7)) (sw_sub []) cmd_sub =
     (None, [EvPush push_a, EvEditChange ''#7'' \<lparr>Base_ec = ''main'', Draft_ec = None\<rparr>])"
  by (simp add: run_unfold [OF target_a(1) preamble_a(1) find_existing_a(1)] submit_update_a)

lemma run_adopt_a:
  "run (world_sub None) (sw_sub [cr7]) cmd_sub =
     (None, [EvUpdateBranch adopt_a, EvPush push_a,
             EvEditChange ''#7'' \<lparr>Base_ec = ''main'', Draft_ec = None\<rparr>])"
  by (simp add: run_unfold [OF target_a(1) preamble_a(1) find_existing_a(2)] submit_update_a)

lemma run_adopt_dry:
  "run (world_sub None) (sw_sub [cr7]) cmd_dry = (None, [EvUpdateBranch adopt_a])"
  by (simp add: run_unfold [OF target_a(3) preamble_a(3) find_existing_a(3)] submit_update_dry)

lemma preparePublish_a:
  "preparePublish (world_sub None) (sw_sub []) (cmd_fill\<lparr>Branch := ''feat-a''\<rparr>) ''main'' =
     (Inr \<lparr>PreparedBranch_of = \<lparr>Name_pb = ''feat-a'', Subject_pb = ''add a'', Body_pb = ''body''\<rparr>,
           head_of = ''feat-a'', base_of = ''main'', draft_of = False\<rparr>,
      [EvSavePreparedBranch \<lparr>Name_pb = ''feat-a'', Subject_pb = ''add a'', Body_pb = ''body''\<rparr>])"
  by (simp add: preparePublish_def prepare_fields_def defaultTitleBody_def
      is_space_def is_space2_def is_space3_def Let_def scenario_defs)

lemma submit_new_a:
  "submit_new (world_sub None) (sw_sub []) (cmd_fill\<lparr>Branch := ''feat-a''\<rparr>) (branch_a None)
     ''h2'' ''feat-a'' ''origin'' =
   (None,
    [EvSavePreparedBranch \<lparr>Name_pb = ''feat-a'', Subject_pb = ''add a'', Body_pb = ''body''\<rparr>,
     EvPush push_a,
     EvSetBranchUpstream ''feat-a'' ''origin/feat-a'',
     EvSubmitChange submit_a,
     EvClearPreparedBranch ''feat-a'',
     deferred_update ''feat-a''
       \<lparr>Name_sp = ''feat-a'', Base_sp = [], BaseHash_sp = [], UpstreamBranch = ''feat-a'',
        ChangeForge = ''github'', ChangeMetadata = ''{number: #8}''\<rparr>])"
proof -
  have base: "Base_lb (branch_a None) = ''main''" by (simp add: branch_a_def)
  show ?thesis
    by (simp add: submit_new_def base preparePublish_a push_options_a)
       (simp add: submit_publish_def Publish_def deferred_update_def
         zero_spice_UpsertRequest_def scenario_defs)
qed

lemma run_new_a:
  "run (world_sub None) (sw_sub []) cmd_fill =
   (None,
    [EvSavePreparedBranch \<lparr>Name_pb = ''feat-a'', Subject_pb = ''add a'', Body_pb = ''body''\<rparr>,
     EvPush push_a,
     EvSetBranchUpstream ''feat-a'' ''origin/feat-a'',
     EvSubmitChange submit_a,
     EvClearPreparedBranch ''feat-a'',
     deferred_update ''feat-a''
       \<lparr>Name_sp = ''feat-a'', Base_sp = [], BaseHash_sp = [], UpstreamBranch = ''feat-a'',
        ChangeForge = ''github'', ChangeMetadata = ''{number: #8}''\<rparr>])"
  by (simp add: run_unfold [OF target_a(2) preamble_a(2) find_existing_a(4)] submit_new_a)

lemma dry_run_events:
  assumes "DryRun cmd0"
  shows "snd (run w sw cmd0) = []
       \<or> (\<exists>name md meta. snd (run w sw cmd0) = [EvUpdateBranch (adopt_request name md meta)])"
proof (cases "snd (run w sw cmd0) = []")
  case True
  then show ?thesis by simp
next
  case False
  from run_preamble [OF False] obtain name branch commitHash up remote where
    H: "submit_target w cmd0 = Inr name"
       "submit_preamble w sw (cmd0\<lparr>Branch := name\<rparr>) = Inr (branch, commitHash, up, remote)"
    by blast
  let ?cmd = "cmd0\<lparr>Branch := name\<rparr>"
  obtain r evs where fe: "find_existing w sw ?cmd branch up = (r, evs)"
    by (cases "find_existing w sw ?cmd branch up")
  have dry: "DryRun ?cmd" using assms by simp
  have new: "snd (submit_new w sw ?cmd branch commitHash up remote) = []"
    using dry by (simp add: submit_new_def)
  have upd: "\<And>pull. snd (submit_update w sw ?cmd branch commitHash up remote pull) = []"
    using dry by (simp add: submit_update_def Let_def)
  have "snd (run w sw cmd0) = evs"
    using run_unfold [OF H fe] new upd by (auto split: sum.splits option.splits)
  with find_existing_cases [OF fe] show ?thesis by auto
qed

text \<open>
  C8. When \<^verbatim>\<open>SubmitChange\<close> is called in a run, the checks of the run have passed,
  the push of the commit to the upstream name was made before it and succeeded,
  and the last call of the run is the deferred store update, whose upsert names
  the branch and carries the upstream name that the refspec of the push used.
\<close>

theorem submit_after_push:
  assumes "EvSubmitChange req \<in> set (snd (run w sw cmd0))"
  shows "\<exists>name branch commitHash up remote pre post u.
           submit_target w cmd0 = Inr name
         \<and> submit_preamble w sw (cmd0\<lparr>Branch := name\<rparr>) = Inr (branch, commitHash, up, remote)
         \<and> snd (run w sw cmd0) =
             pre @ EvPush (push_options w (cmd0\<lparr>Branch := name\<rparr>) remote commitHash up) # post
         \<and> Push (repo w) (push_options w (cmd0\<lparr>Branch := name\<rparr>) remote commitHash up) = None
         \<and> Refspec (push_options w (cmd0\<lparr>Branch := name\<rparr>) remote commitHash up)
             = commitHash @ '':refs/heads/'' @ up
         \<and> EvSubmitChange req \<notin> set pre \<and> EvSubmitChange req \<in> set post
         \<and> last (snd (run w sw cmd0)) = deferred_update name u
         \<and> Name_sp u = name \<and> UpstreamBranch u = up"
proof -
  from assms have "snd (run w sw cmd0) \<noteq> []" by auto
  from run_preamble [OF this] obtain name branch commitHash up remote where
    H: "submit_target w cmd0 = Inr name"
       "submit_preamble w sw (cmd0\<lparr>Branch := name\<rparr>) = Inr (branch, commitHash, up, remote)"
    by blast
  let ?cmd = "cmd0\<lparr>Branch := name\<rparr>"
  let ?po = "push_options w ?cmd remote commitHash up"
  obtain r evs where fe: "find_existing w sw ?cmd branch up = (r, evs)"
    by (cases "find_existing w sw ?cmd branch up")
  note run = run_unfold [OF H fe]
  from find_existing_cases [OF fe]
  have evs: "EvSubmitChange req \<notin> set evs" and none: "r = Inr None \<Longrightarrow> evs = []"
    by (auto split: option.splits)
  have new: "r = Inr None \<and> EvSubmitChange req
      \<in> set (snd (submit_new w sw ?cmd branch commitHash up remote))"
  proof (cases r)
    case (Inl e)
    with run assms evs show ?thesis by simp
  next
    case (Inr ex)
    show ?thesis
    proof (cases ex)
      case None
      with Inr run assms evs show ?thesis by simp
    next
      case (Some pull)
      obtain e2 tr2 where su: "submit_update w sw ?cmd branch commitHash up remote pull = (e2, tr2)"
        by (cases "submit_update w sw ?cmd branch commitHash up remote pull")
      from submit_update_cases [OF su] have "EvSubmitChange req \<notin> set tr2"
        by (auto split: if_splits)
      with Some Inr run assms evs su show ?thesis by simp
    qed
  qed
  obtain e1 tr where sn: "submit_new w sw ?cmd branch commitHash up remote = (e1, tr)"
    by (cases "submit_new w sw ?cmd branch commitHash up remote")
  from new sn have mem: "EvSubmitChange req \<in> set tr" by simp
  from new none run sn have trace: "snd (run w sw cmd0) = tr" by simp
  from submit_new_cases [OF sn] mem
  obtain evs1 evs2 u where
    tr: "tr = evs1 @ [EvPush ?po, EvSetBranchUpstream (Branch ?cmd) (remote @ ''/'' @ Branch ?cmd)]
              @ evs2 @ [deferred_update (Branch ?cmd) u]"
    and p: "\<forall>ev \<in> set evs1. is_prepared_event ev"
    and push: "Push (repo w) ?po = None"
    and u: "Name_sp u = Branch ?cmd" "UpstreamBranch u = up"
    by (auto dest: prepared_not_submit)
  have pre: "EvSubmitChange req \<notin> set evs1" using p by (auto dest: prepared_not_submit)
  have post: "EvSubmitChange req \<in> set ([EvSetBranchUpstream (Branch ?cmd) (remote @ ''/'' @ Branch ?cmd)]
              @ evs2 @ [deferred_update (Branch ?cmd) u])"
    using mem tr pre by auto
  have "snd (run w sw cmd0) = evs1 @ EvPush ?po #
      ([EvSetBranchUpstream (Branch ?cmd) (remote @ ''/'' @ Branch ?cmd)]
              @ evs2 @ [deferred_update (Branch ?cmd) u])"
    using trace tr by simp
  moreover have "last (snd (run w sw cmd0)) = deferred_update name u"
    using trace tr by simp
  moreover have "Refspec ?po = commitHash @ '':refs/heads/'' @ up"
    by (simp add: push_options_def)
  ultimately show ?thesis using H push pre post u by (intro exI conjI) auto
qed

theorem submit_after_push_witness:
  "EvSubmitChange submit_a \<in> set (snd (run (world_sub None) (sw_sub []) cmd_fill))
   \<and> (\<exists>pre post u.
         snd (run (world_sub None) (sw_sub []) cmd_fill) = pre @ EvPush push_a # post
       \<and> Push (repo (world_sub None)) push_a = None
       \<and> Refspec push_a = ''h2'' @ '':refs/heads/'' @ ''feat-a''
       \<and> EvSubmitChange submit_a \<notin> set pre \<and> EvSubmitChange submit_a \<in> set post
       \<and> last (snd (run (world_sub None) (sw_sub []) cmd_fill)) = deferred_update ''feat-a'' u
       \<and> Name_sp u = ''feat-a'' \<and> UpstreamBranch u = ''feat-a'')"
proof -
  have mem: "EvSubmitChange submit_a \<in> set (snd (run (world_sub None) (sw_sub []) cmd_fill))"
    by (simp add: run_new_a)
  from submit_after_push [OF mem]
  obtain name branch commitHash up remote pre post u where
    H: "submit_target (world_sub None) cmd_fill = Inr name"
       "submit_preamble (world_sub None) (sw_sub []) (cmd_fill\<lparr>Branch := name\<rparr>)
          = Inr (branch, commitHash, up, remote)"
    and R: "snd (run (world_sub None) (sw_sub []) cmd_fill) =
             pre @ EvPush (push_options (world_sub None) (cmd_fill\<lparr>Branch := name\<rparr>)
                             remote commitHash up) # post"
      "Push (repo (world_sub None))
         (push_options (world_sub None) (cmd_fill\<lparr>Branch := name\<rparr>) remote commitHash up) = None"
      "Refspec (push_options (world_sub None) (cmd_fill\<lparr>Branch := name\<rparr>) remote commitHash up)
         = commitHash @ '':refs/heads/'' @ up"
      "EvSubmitChange submit_a \<notin> set pre" "EvSubmitChange submit_a \<in> set post"
      "last (snd (run (world_sub None) (sw_sub []) cmd_fill)) = deferred_update name u"
      "Name_sp u = name" "UpstreamBranch u = up"
    by blast
  from H(1) have n: "name = ''feat-a''" by (simp add: target_a)
  from H(2) n have p: "commitHash = ''h2''" "up = ''feat-a''" "remote = ''origin''"
    by (simp_all add: preamble_a)
  from R n p have "snd (run (world_sub None) (sw_sub []) cmd_fill) = pre @ EvPush push_a # post
       \<and> Push (repo (world_sub None)) push_a = None
       \<and> Refspec push_a = ''h2'' @ '':refs/heads/'' @ ''feat-a''
       \<and> EvSubmitChange submit_a \<notin> set pre \<and> EvSubmitChange submit_a \<in> set post
       \<and> last (snd (run (world_sub None) (sw_sub []) cmd_fill)) = deferred_update ''feat-a'' u
       \<and> Name_sp u = ''feat-a'' \<and> UpstreamBranch u = ''feat-a''"
    by (simp add: push_options_a)
  with mem show ?thesis by blast
qed

text \<open>
  The two kinds of store update of \<^verbatim>\<open>run\<close>, with the adoption written as
  \<open>adopt_request\<close>.
\<close>

lemma adopt_update_cases:
  "(submit_target w cmd0 = Inr name
     \<and> submit_preamble w sw (cmd0\<lparr>Branch := name\<rparr>) = Inr (branch, commitHash, up, remote)
     \<and> Change_lb branch = None
     \<and> FindChangesByBranch (remoteRepo sw) up \<lparr>State_fo = ChangeOpen, Limit = 3\<rparr> = Inr [c]
     \<and> fst (run w sw cmd0) = None
    \<longrightarrow> (\<exists>md meta rest.
           NewChangeMetadata (remoteRepo sw) (ID c) = Inr md
         \<and> MarshalChangeMetadata (remoteRepo sw) md = Inr meta
         \<and> UpdateBranch (store w) (adopt_request name md meta) = None
         \<and> snd (run w sw cmd0) = EvUpdateBranch (adopt_request name md meta) # rest
         \<and> (\<forall>ev \<in> set rest. \<not> is_UpdateBranch ev)))
   \<and> (submit_target w cmd0 = Inr name
     \<and> submit_preamble w sw (cmd0\<lparr>Branch := name\<rparr>) = Inr (branch, commitHash, up, remote)
     \<and> EvUpdateBranch r \<in> set (snd (run w sw cmd0))
    \<longrightarrow> (\<exists>c md meta.
            Change_lb branch = None
          \<and> FindChangesByBranch (remoteRepo sw) up \<lparr>State_fo = ChangeOpen, Limit = 3\<rparr> = Inr [c]
          \<and> NewChangeMetadata (remoteRepo sw) (ID c) = Inr md
          \<and> MarshalChangeMetadata (remoteRepo sw) md = Inr meta
          \<and> r = adopt_request name md meta)
        \<or> (\<exists>u. EvUpdateBranch r = deferred_update name u
          \<and> Name_sp u = name \<and> UpstreamBranch u = up
          \<and> fst (find_existing w sw (cmd0\<lparr>Branch := name\<rparr>) branch up) = Inr None
          \<and> Push (repo w) (push_options w (cmd0\<lparr>Branch := name\<rparr>) remote commitHash up) = None))"
proof (intro conjI impI)
  let ?cmd = "cmd0\<lparr>Branch := name\<rparr>"
  assume a: "submit_target w cmd0 = Inr name
     \<and> submit_preamble w sw ?cmd = Inr (branch, commitHash, up, remote)
     \<and> Change_lb branch = None
     \<and> FindChangesByBranch (remoteRepo sw) up \<lparr>State_fo = ChangeOpen, Limit = 3\<rparr> = Inr [c]
     \<and> fst (run w sw cmd0) = None"
  obtain r0 evs where fe: "find_existing w sw ?cmd branch up = (r0, evs)"
    by (cases "find_existing w sw ?cmd branch up")
  from a have H: "submit_target w cmd0 = Inr name"
    "submit_preamble w sw ?cmd = Inr (branch, commitHash, up, remote)" by simp_all
  note run = run_unfold [OF H fe]
  from a fe have ad: "adopt_change w sw ?cmd c = (r0, evs)"
    by (simp add: find_existing_def)
  from a run have noerr: "\<And>e. r0 \<noteq> Inl e" by auto
  from adopt_change_cases [OF ad] noerr obtain md meta where
    m: "NewChangeMetadata (remoteRepo sw) (ID c) = Inr md"
       "MarshalChangeMetadata (remoteRepo sw) md = Inr meta"
       "evs = [EvUpdateBranch (adopt_request name md meta)]"
       "UpdateBranch (store w) (adopt_request name md meta) = None"
       "r0 = Inr (Some c)"
    by (auto split: option.splits)
  obtain e2 tr2 where su: "submit_update w sw ?cmd branch commitHash up remote c = (e2, tr2)"
    by (cases "submit_update w sw ?cmd branch commitHash up remote c")
  from submit_update_cases [OF su] have "\<forall>ev \<in> set tr2. \<not> is_UpdateBranch ev"
    by (auto simp: is_UpdateBranch_def split: if_splits)
  moreover have "snd (run w sw cmd0) = EvUpdateBranch (adopt_request name md meta) # tr2"
    using run m su by simp
  ultimately show "\<exists>md meta rest.
           NewChangeMetadata (remoteRepo sw) (ID c) = Inr md
         \<and> MarshalChangeMetadata (remoteRepo sw) md = Inr meta
         \<and> UpdateBranch (store w) (adopt_request name md meta) = None
         \<and> snd (run w sw cmd0) = EvUpdateBranch (adopt_request name md meta) # rest
         \<and> (\<forall>ev \<in> set rest. \<not> is_UpdateBranch ev)"
    using m by blast
next
  let ?cmd = "cmd0\<lparr>Branch := name\<rparr>"
  let ?po = "push_options w ?cmd remote commitHash up"
  assume b: "submit_target w cmd0 = Inr name
     \<and> submit_preamble w sw ?cmd = Inr (branch, commitHash, up, remote)
     \<and> EvUpdateBranch r \<in> set (snd (run w sw cmd0))"
  obtain r0 evs where fe: "find_existing w sw ?cmd branch up = (r0, evs)"
    by (cases "find_existing w sw ?cmd branch up")
  from b have H: "submit_target w cmd0 = Inr name"
    "submit_preamble w sw ?cmd = Inr (branch, commitHash, up, remote)" by simp_all
  note run = run_unfold [OF H fe]
  let ?A = "\<exists>c md meta.
            Change_lb branch = None
          \<and> FindChangesByBranch (remoteRepo sw) up \<lparr>State_fo = ChangeOpen, Limit = 3\<rparr> = Inr [c]
          \<and> NewChangeMetadata (remoteRepo sw) (ID c) = Inr md
          \<and> MarshalChangeMetadata (remoteRepo sw) md = Inr meta
          \<and> r = adopt_request name md meta"
  let ?D = "\<exists>u. EvUpdateBranch r = deferred_update name u
          \<and> Name_sp u = name \<and> UpstreamBranch u = up
          \<and> fst (find_existing w sw ?cmd branch up) = Inr None
          \<and> Push (repo w) ?po = None"
  have inevs: "EvUpdateBranch r \<in> set evs \<Longrightarrow> ?A"
    using find_existing_cases [OF fe] by auto
  show "?A \<or> ?D"
  proof (cases "EvUpdateBranch r \<in> set evs")
    case True
    then show ?thesis using inevs by blast
  next
    case False
    show ?thesis
    proof (cases r0)
      case (Inl e)
      with run b False show ?thesis by simp
    next
      case (Inr ex)
      show ?thesis
      proof (cases ex)
        case (Some pull)
        obtain e2 tr2 where su: "submit_update w sw ?cmd branch commitHash up remote pull = (e2, tr2)"
          by (cases "submit_update w sw ?cmd branch commitHash up remote pull")
        from submit_update_cases [OF su] have "EvUpdateBranch r \<notin> set tr2"
          by (auto split: if_splits)
        with Some Inr run b False su show ?thesis by simp
      next
        case None
        obtain e1 tr where sn: "submit_new w sw ?cmd branch commitHash up remote = (e1, tr)"
          by (cases "submit_new w sw ?cmd branch commitHash up remote")
        from None Inr run b False sn have mem: "EvUpdateBranch r \<in> set tr" by simp
        from submit_new_cases [OF sn] mem
        obtain evs1 evs2 u where
          tr: "tr = evs1 @ [EvPush ?po, EvSetBranchUpstream (Branch ?cmd) (remote @ ''/'' @ Branch ?cmd)]
                    @ evs2 @ [deferred_update (Branch ?cmd) u]"
          and p: "\<forall>ev \<in> set evs1. is_prepared_event ev"
          and push: "Push (repo w) ?po = None"
          and u: "Name_sp u = Branch ?cmd" "UpstreamBranch u = up"
          and e2: "evs2 = [] \<or> (\<exists>req n. evs2 = [EvSubmitChange req]
                       \<or> evs2 = [EvSubmitChange req, EvClearPreparedBranch n])"
          by (auto dest: prepared_not_update)
        have "EvUpdateBranch r \<notin> set evs1" using p by (auto dest: prepared_not_update)
        moreover have "EvUpdateBranch r \<notin> set evs2" using e2 by auto
        ultimately have "EvUpdateBranch r = deferred_update name u" using mem tr by auto
        with u push fe None Inr show ?thesis by auto
      qed
    qed
  qed
qed

text \<open>
  C7. On a branch whose record has no change, when the search for open change
  requests of the upstream name (state open, limit 3) returns exactly one, a run
  without error has first asked the store, successfully, for one update: a single
  upsert, named like the branch, that carries the forge id of that change
  request's metadata and the metadata as the forge marshals it, and nothing else
  (no base, no base hash, no upstream branch, no delete), under the message
  \<open>name: associate existing CR\<close>; it makes no other update of a branch record. In
  any run, an update of a branch record is either this one (and then the record
  had no change and the search returned exactly one change request) or the
  deferred update of a submission that found no change request and pushed the
  branch: the adoption is the only repair of the store.
\<close>

theorem adopt_heals_store:
  "(submit_target w cmd0 = Inr name
     \<and> submit_preamble w sw (cmd0\<lparr>Branch := name\<rparr>) = Inr (branch, commitHash, up, remote)
     \<and> Change_lb branch = None
     \<and> FindChangesByBranch (remoteRepo sw) up \<lparr>State_fo = ChangeOpen, Limit = 3\<rparr> = Inr [c]
     \<and> fst (run w sw cmd0) = None
    \<longrightarrow> (\<exists>md meta rest.
           NewChangeMetadata (remoteRepo sw) (ID c) = Inr md
         \<and> MarshalChangeMetadata (remoteRepo sw) md = Inr meta
         \<and> UpdateBranch (store w)
              \<lparr>Upserts_sp = [\<lparr>Name_sp = name, Base_sp = [], BaseHash_sp = [],
                              UpstreamBranch = [], ChangeForge = ForgeID md,
                              ChangeMetadata = meta\<rparr>],
               Deletes_sp = [],
               Message_sp = name @ '': associate existing CR''\<rparr> = None
         \<and> snd (run w sw cmd0) =
             EvUpdateBranch
               \<lparr>Upserts_sp = [\<lparr>Name_sp = name, Base_sp = [], BaseHash_sp = [],
                               UpstreamBranch = [], ChangeForge = ForgeID md,
                               ChangeMetadata = meta\<rparr>],
                Deletes_sp = [],
                Message_sp = name @ '': associate existing CR''\<rparr> # rest
         \<and> (\<forall>ev \<in> set rest. \<not> is_UpdateBranch ev)))
   \<and> (submit_target w cmd0 = Inr name
     \<and> submit_preamble w sw (cmd0\<lparr>Branch := name\<rparr>) = Inr (branch, commitHash, up, remote)
     \<and> EvUpdateBranch r \<in> set (snd (run w sw cmd0))
    \<longrightarrow> (\<exists>c md meta.
            Change_lb branch = None
          \<and> FindChangesByBranch (remoteRepo sw) up \<lparr>State_fo = ChangeOpen, Limit = 3\<rparr> = Inr [c]
          \<and> NewChangeMetadata (remoteRepo sw) (ID c) = Inr md
          \<and> MarshalChangeMetadata (remoteRepo sw) md = Inr meta
          \<and> r = \<lparr>Upserts_sp = [\<lparr>Name_sp = name, Base_sp = [], BaseHash_sp = [],
                                 UpstreamBranch = [], ChangeForge = ForgeID md,
                                 ChangeMetadata = meta\<rparr>],
                  Deletes_sp = [],
                  Message_sp = name @ '': associate existing CR''\<rparr>)
        \<or> (\<exists>u. EvUpdateBranch r = deferred_update name u
          \<and> Name_sp u = name \<and> UpstreamBranch u = up
          \<and> fst (find_existing w sw (cmd0\<lparr>Branch := name\<rparr>) branch up) = Inr None
          \<and> Push (repo w) (push_options w (cmd0\<lparr>Branch := name\<rparr>) remote commitHash up) = None))"
  by (rule adopt_update_cases [unfolded adopt_request_def])

theorem adopt_heals_store_witness:
  "submit_target (world_sub None) cmd_sub = Inr ''feat-a''
   \<and> Change_lb (branch_a None) = None
   \<and> FindChangesByBranch (remoteRepo (sw_sub [cr7])) ''feat-a''
        \<lparr>State_fo = ChangeOpen, Limit = 3\<rparr> = Inr [cr7]
   \<and> NewChangeMetadata (remoteRepo (sw_sub [cr7])) (ID cr7) = Inr md7
   \<and> MarshalChangeMetadata (remoteRepo (sw_sub [cr7])) md7 = Inr ''{number: #7}''
   \<and> fst (run (world_sub None) (sw_sub [cr7]) cmd_sub) = None
   \<and> (\<exists>rest.
         snd (run (world_sub None) (sw_sub [cr7]) cmd_sub) =
           EvUpdateBranch
             \<lparr>Upserts_sp = [\<lparr>Name_sp = ''feat-a'', Base_sp = [], BaseHash_sp = [],
                             UpstreamBranch = [], ChangeForge = ''github'',
                             ChangeMetadata = ''{number: #7}''\<rparr>],
              Deletes_sp = [],
              Message_sp = ''feat-a: associate existing CR''\<rparr> # rest
         \<and> (\<forall>ev \<in> set rest. \<not> is_UpdateBranch ev))
   \<and> EvUpdateBranch adopt_a \<in> set (snd (run (world_sub None) (sw_sub [cr7]) cmd_sub))
   \<and> adopt_a = \<lparr>Upserts_sp = [\<lparr>Name_sp = ''feat-a'', Base_sp = [], BaseHash_sp = [],
                             UpstreamBranch = [], ChangeForge = ''github'',
                             ChangeMetadata = ''{number: #7}''\<rparr>],
              Deletes_sp = [],
              Message_sp = ''feat-a: associate existing CR''\<rparr>"
proof -
  have c: "Change_lb (branch_a None) = None"
    and f: "FindChangesByBranch (remoteRepo (sw_sub [cr7])) ''feat-a''
        \<lparr>State_fo = ChangeOpen, Limit = 3\<rparr> = Inr [cr7]"
    and n: "NewChangeMetadata (remoteRepo (sw_sub [cr7])) (ID cr7) = Inr md7"
    and m: "MarshalChangeMetadata (remoteRepo (sw_sub [cr7])) md7 = Inr ''{number: #7}''"
    and fid: "ForgeID md7 = ''github''"
    by (simp_all add: scenario_defs)
  have ok: "fst (run (world_sub None) (sw_sub [cr7]) cmd_sub) = None"
    and mem: "EvUpdateBranch adopt_a \<in> set (snd (run (world_sub None) (sw_sub [cr7]) cmd_sub))"
    by (simp_all add: run_adopt_a)
  note T = adopt_heals_store [where w = "world_sub None" and sw = "sw_sub [cr7]"
      and ?cmd0.0 = cmd_sub and name = "''feat-a''" and branch = "branch_a None"
      and commitHash = "''h2''" and up = "''feat-a''" and remote = "''origin''"
      and c = cr7 and r = adopt_a]
  from T [THEN conjunct1] target_a(1) preamble_a(1) c f ok
  have 1: "\<exists>rest.
         snd (run (world_sub None) (sw_sub [cr7]) cmd_sub) =
           EvUpdateBranch
             \<lparr>Upserts_sp = [\<lparr>Name_sp = ''feat-a'', Base_sp = [], BaseHash_sp = [],
                             UpstreamBranch = [], ChangeForge = ''github'',
                             ChangeMetadata = ''{number: #7}''\<rparr>],
              Deletes_sp = [],
              Message_sp = ''feat-a: associate existing CR''\<rparr> # rest
         \<and> (\<forall>ev \<in> set rest. \<not> is_UpdateBranch ev)"
    by (auto simp: n m fid)
  have nodef: "\<And>u. EvUpdateBranch adopt_a \<noteq> deferred_update ''feat-a'' u"
    by (simp add: deferred_update_def adopt_a_def)
  from T [THEN conjunct2] target_a(1) preamble_a(1) mem nodef
  obtain c' md' meta' where
      f': "FindChangesByBranch (remoteRepo (sw_sub [cr7])) ''feat-a''
             \<lparr>State_fo = ChangeOpen, Limit = 3\<rparr> = Inr [c']"
    and n': "NewChangeMetadata (remoteRepo (sw_sub [cr7])) (ID c') = Inr md'"
    and m': "MarshalChangeMetadata (remoteRepo (sw_sub [cr7])) md' = Inr meta'"
    and r': "adopt_a = \<lparr>Upserts_sp = [\<lparr>Name_sp = ''feat-a'', Base_sp = [], BaseHash_sp = [],
                                 UpstreamBranch = [], ChangeForge = ForgeID md',
                                 ChangeMetadata = meta'\<rparr>],
                  Deletes_sp = [],
                  Message_sp = ''feat-a'' @ '': associate existing CR''\<rparr>"
    by blast
  from f f' have "c' = cr7" by simp
  with n n' have "md' = md7" by simp
  with m m' have "meta' = ''{number: #7}''" by simp
  with r' \<open>md' = md7\<close> fid
  have 2: "adopt_a = \<lparr>Upserts_sp = [\<lparr>Name_sp = ''feat-a'', Base_sp = [], BaseHash_sp = [],
                             UpstreamBranch = [], ChangeForge = ''github'',
                             ChangeMetadata = ''{number: #7}''\<rparr>],
              Deletes_sp = [],
              Message_sp = ''feat-a: associate existing CR''\<rparr>"
    by simp
  from target_a(1) c f n m ok 1 mem 2 show ?thesis by blast
qed

text \<open>
  C2, as stated, fails: \<^verbatim>\<open>feat-a\<close> has the change request \<open>cr7\<close>, whose head hash
  differs from the tip of the branch while its base is the base of the branch and
  no draft flag is given; the only difference is the push, and the run pushes
  once and calls \<^verbatim>\<open>EditChange\<close> once.
\<close>

theorem head_only_update_edits_change:
  "find_existing (world_sub (Some md7)) (sw_sub []) (cmd_sub\<lparr>Branch := ''feat-a''\<rparr>)
     (branch_a (Some md7)) ''feat-a'' = (Inr (Some cr7), [])
   \<and> HeadHash cr7 \<noteq> ''h2''
   \<and> BaseName cr7 = Base_lb (branch_a (Some md7))
   \<and> Draft cmd_sub = None
   \<and> submit_updates (sw_sub []) (cmd_sub\<lparr>Branch := ''feat-a''\<rparr>) (branch_a (Some md7)) ''h2'' cr7
        = [''push branch'']
   \<and> run (world_sub (Some md7)) (sw_sub []) cmd_sub =
        (None, [EvPush push_a, EvEditChange ''#7'' \<lparr>Base_ec = ''main'', Draft_ec = None\<rparr>])"
proof -
  have "HeadHash cr7 \<noteq> ''h2''" "BaseName cr7 = Base_lb (branch_a (Some md7))"
    "Draft cmd_sub = None"
    by (simp_all add: scenario_defs)
  then show ?thesis by (simp add: find_existing_a updates_a run_existing_a)
qed

text \<open>
  C2, amended. When the branch has a change request, the calls that follow the
  lookup of the change request are: nothing, when nothing differs or the run is a
  dry run; otherwise the push, when the head hash differs, and then, unless that
  push failed, one \<^verbatim>\<open>EditChange\<close> with the base of the branch and the draft flag
  of the command line, whatever differs. The push is forced only with \<^verbatim>\<open>--force\<close>, and
  without it carries a lease when the remote-tracking ref peels to a commit.
\<close>

theorem existing_change_events:
  "submit_target w cmd0 = Inr name
   \<and> submit_preamble w sw (cmd0\<lparr>Branch := name\<rparr>) = Inr (branch, commitHash, up, remote)
   \<and> find_existing w sw (cmd0\<lparr>Branch := name\<rparr>) branch up = (Inr (Some pull), evs)
   \<longrightarrow> snd (run w sw cmd0) =
         evs @ (if submit_updates sw (cmd0\<lparr>Branch := name\<rparr>) branch commitHash pull = []
                   \<or> DryRun cmd0 then []
                else (if HeadHash pull \<noteq> commitHash
                      then [EvPush (push_options w (cmd0\<lparr>Branch := name\<rparr>) remote commitHash up)]
                      else [])
                     @ (if HeadHash pull \<noteq> commitHash
                           \<and> Push (repo w)
                                (push_options w (cmd0\<lparr>Branch := name\<rparr>) remote commitHash up) \<noteq> None
                        then []
                        else [EvEditChange (ID pull)
                                \<lparr>Base_ec = Base_lb branch, Draft_ec = Draft cmd0\<rparr>]))
       \<and> Force_po (push_options w (cmd0\<lparr>Branch := name\<rparr>) remote commitHash up) = Force cmd0
       \<and> ForceWithLease (push_options w (cmd0\<lparr>Branch := name\<rparr>) remote commitHash up) =
           (if Force cmd0 then []
            else (case PeelToCommit (repo w) (remote @ ''/'' @ up) of
                    Inr existingHash \<Rightarrow> up @ '':'' @ existingHash
                  | Inl err \<Rightarrow> []))"
proof (intro impI)
  let ?cmd = "cmd0\<lparr>Branch := name\<rparr>"
  assume a: "submit_target w cmd0 = Inr name
   \<and> submit_preamble w sw ?cmd = Inr (branch, commitHash, up, remote)
   \<and> find_existing w sw ?cmd branch up = (Inr (Some pull), evs)"
  then have H: "submit_target w cmd0 = Inr name"
    "submit_preamble w sw ?cmd = Inr (branch, commitHash, up, remote)"
    and fe: "find_existing w sw ?cmd branch up = (Inr (Some pull), evs)" by simp_all
  obtain e2 tr2 where su: "submit_update w sw ?cmd branch commitHash up remote pull = (e2, tr2)"
    by (cases "submit_update w sw ?cmd branch commitHash up remote pull")
  have "snd (run w sw cmd0) = evs @ tr2" using run_unfold [OF H fe] su by simp
  with submit_update_cases [OF su]
  show "snd (run w sw cmd0) =
         evs @ (if submit_updates sw ?cmd branch commitHash pull = [] \<or> DryRun cmd0 then []
                else (if HeadHash pull \<noteq> commitHash
                      then [EvPush (push_options w ?cmd remote commitHash up)]
                      else [])
                     @ (if HeadHash pull \<noteq> commitHash
                           \<and> Push (repo w) (push_options w ?cmd remote commitHash up) \<noteq> None
                        then []
                        else [EvEditChange (ID pull)
                                \<lparr>Base_ec = Base_lb branch, Draft_ec = Draft cmd0\<rparr>]))
       \<and> Force_po (push_options w ?cmd remote commitHash up) = Force cmd0
       \<and> ForceWithLease (push_options w ?cmd remote commitHash up) =
           (if Force cmd0 then []
            else (case PeelToCommit (repo w) (remote @ ''/'' @ up) of
                    Inr existingHash \<Rightarrow> up @ '':'' @ existingHash
                  | Inl err \<Rightarrow> []))"
    by (simp add: push_options_def)
qed

theorem existing_change_events_witness:
  "submit_target (world_sub (Some md7)) cmd_sub = Inr ''feat-a''
   \<and> submit_preamble (world_sub (Some md7)) (sw_sub []) (cmd_sub\<lparr>Branch := ''feat-a''\<rparr>)
        = Inr (branch_a (Some md7), ''h2'', ''feat-a'', ''origin'')
   \<and> find_existing (world_sub (Some md7)) (sw_sub []) (cmd_sub\<lparr>Branch := ''feat-a''\<rparr>)
        (branch_a (Some md7)) ''feat-a'' = (Inr (Some cr7), [])
   \<and> snd (run (world_sub (Some md7)) (sw_sub []) cmd_sub) =
        [EvPush push_a, EvEditChange ''#7'' \<lparr>Base_ec = ''main'', Draft_ec = None\<rparr>]
   \<and> Force_po push_a = False \<and> ForceWithLease push_a = ''feat-a:h1''"
proof -
  have push: "Push (repo (world_sub (Some md7))) push_a = None"
    and cr: "HeadHash cr7 \<noteq> ''h2''" "ID cr7 = ''#7''"
      "Base_lb (branch_a (Some md7)) = ''main''" "DryRun cmd_sub = False"
      "Draft cmd_sub = None" "Force cmd_sub = False"
    by (simp_all add: scenario_defs)
  from existing_change_events [where w = "world_sub (Some md7)" and sw = "sw_sub []"
      and ?cmd0.0 = cmd_sub and name = "''feat-a''" and branch = "branch_a (Some md7)"
      and commitHash = "''h2''" and up = "''feat-a''" and remote = "''origin''"
      and pull = cr7 and evs = "[]"]
    target_a(1) preamble_a(1) find_existing_a(1)
  have "snd (run (world_sub (Some md7)) (sw_sub []) cmd_sub) =
        [EvPush push_a, EvEditChange ''#7'' \<lparr>Base_ec = ''main'', Draft_ec = None\<rparr>]
      \<and> Force_po push_a = False"
    by (simp add: updates_a push_options_a push cr)
  moreover have "ForceWithLease push_a = ''feat-a:h1''" by (simp add: push_a_def)
  ultimately show ?thesis using target_a(1) preamble_a(1) find_existing_a(1) by simp
qed

text \<open>
  C1 fails on the code at this input: a dry run on \<^verbatim>\<open>feat-a\<close>, whose record has no
  change, while the forge finds exactly one open change request for it. The
  command calls \<^verbatim>\<open>UpdateBranch\<close> of the store before it reaches the check of the
  dry-run flag.
\<close>

theorem dry_run_adopt_writes_store:
  "DryRun cmd_dry
   \<and> LookupBranch (svc (world_sub None)) ''feat-a'' = Inr (branch_a None)
   \<and> Change_lb (branch_a None) = None
   \<and> FindChangesByBranch (remoteRepo (sw_sub [cr7])) ''feat-a''
        \<lparr>State_fo = ChangeOpen, Limit = 3\<rparr> = Inr [cr7]
   \<and> branchSubmitCmd_Run (world_sub None) (sw_sub [cr7]) cmd_dry
        = (None, [EvUpdateBranch adopt_a])"
proof -
  have dry: "DryRun cmd_dry" and op: "openRepo (world_sub None) = None"
    and lb: "LookupBranch (svc (world_sub None)) ''feat-a'' = Inr (branch_a None)"
    and ch: "Change_lb (branch_a None) = None"
    and fc: "FindChangesByBranch (remoteRepo (sw_sub [cr7])) ''feat-a''
        \<lparr>State_fo = ChangeOpen, Limit = 3\<rparr> = Inr [cr7]"
    by (simp_all add: scenario_defs)
  have "branchSubmitCmd_Run (world_sub None) (sw_sub [cr7]) cmd_dry
        = (None, [EvUpdateBranch adopt_a])"
    by (simp add: branchSubmitCmd_Run_def run_adopt_dry dry op)
  with dry lb ch fc show ?thesis by simp
qed

end
